theory Spec2Isabelle
  imports Main "HOL-Library.Char_ord" "HOL-Library.List_Lexorder"
begin

section \<open>Errors\<close>

text \<open>
  Exceptions of the Python source are values. \<open>EnrollmentModificationException\<close> carries its
  message; the others are the interpreter's own exceptions that the views do not catch.
\<close>

datatype error =
    IndexError
  | KeyError
  | TypeError
  | AttributeError
  | UnboundLocalError
  | MultipleObjectsReturned
  | NotConnectedToOpenEdX
  | Http404
  | ValidationError string
  | EnrollmentModificationException string

section \<open>Report types: \<open>EnterpriseCustomerReportTypesView\<close>\<close>

text \<open>
  \<open>str.startswith\<close>: the slice of the subject as long as the prefix equals the prefix.
\<close>

definition startswith :: "string \<Rightarrow> string \<Rightarrow> bool" where
  "startswith s p = (take (length p) s = p)"

text \<open>
  \<open>_get_data_types_with_recent_progress_type\<close>. A data type is a pair of strings; the code
  tests and sorts on the second component. \<open>list.sort(key=...)\<close> is a stable sort by the key,
  as \<open>sort_key\<close> is; strings compare by code point, shorter prefix first.
  \<open>progress_data_types[-1]\<close> raises \<open>IndexError\<close> on the empty list.
\<close>

definition get_data_types_with_recent_progress_type ::
  "(string \<times> string) list \<Rightarrow> error + (string \<times> string) list" where
  "get_data_types_with_recent_progress_type data_types =
    (let progress_data_types =
           sort_key snd (filter (\<lambda>data_type. startswith (snd data_type) ''progress'') data_types);
         data_types_for_frontend =
           filter (\<lambda>data_type. \<not> startswith (snd data_type) ''progress'') data_types
     in if progress_data_types = [] then Inl IndexError
        else Inr (data_types_for_frontend @ [(snd (last progress_data_types), ''progress'')]))"

section \<open>Data model\<close>

text \<open>
  Rows are records holding the columns the views read, with the related rows they reach
  through the ORM flattened in: an \<open>EnterpriseCourseEnrollment\<close> carries the username and
  user id of its \<open>enterprise_customer_user\<close> and the uuid of that user's customer.
  A datetime is the integer count of microseconds on the time line: the views only compare
  datetimes.
\<close>

type_synonym timestamp = int

record enterprise_course_enrollment =
  ece_username :: string
  ece_user_id :: nat
  ece_enterprise :: string
  ece_course_id :: string

text \<open>
  A subsidy fulfillment (\<open>LearnerCreditEnterpriseCourseEnrollment\<close> or
  \<open>LicensedEnterpriseCourseEnrollment\<close>): its uuid, its subsidy reference (the license uuid
  of a licensed row), the revoked flag, its enterprise course enrollment if it has one, and
  the customer uuid of its course entitlement's user if it has an entitlement. The
  \<open>license\<close> property of an enterprise course enrollment leads back to the licensed row
  that holds it, so one record stands for both.
\<close>

record fulfillment =
  f_uuid :: string
  f_license_uuid :: string
  f_is_revoked :: bool
  f_enrollment :: "enterprise_course_enrollment option"
  f_entitlement_enterprise :: "string option"

datatype subsidy_kind = LearnerCredit | Licensed

text \<open>A course overview is a dictionary; the views read its \<open>id\<close>.\<close>

record course_overview =
  co_id :: string
  co_fields :: "(string \<times> string) list"

type_synonym certificate = "(string \<times> string) list"

text \<open>
  \<open>CourseRunProgressStatuses\<close> of the learner portal; the views compare with \<open>COMPLETED\<close>.
\<close>

datatype progress_status = IN_PROGRESS | UPCOMING | COMPLETED | SAVED_FOR_LATER

text \<open>\<open>EnrollmentTerminationStatus\<close> and the strings its constants stand for.\<close>

datatype termination_status = COURSE_COMPLETED | MOVED_TO_AUDIT | UNENROLLED | UNENROLL_FAILED

fun status_message :: "termination_status \<Rightarrow> string" where
  "status_message COURSE_COMPLETED = ''course already completed''"
| "status_message MOVED_TO_AUDIT = ''moved to audit''"
| "status_message UNENROLLED = ''unenrolled''"
| "status_message UNENROLL_FAILED = ''unenroll_user_from_course returned false.''"

text \<open>
  A request of the bulk enrollment: a dictionary with an optional user id, an optional email,
  the course run key, the license uuid or the transaction id, and the course mode the view
  adds.
\<close>

record enrollment_info =
  info_user_id :: "nat option"
  info_email :: "string option"
  info_course_run_key :: string
  info_license_uuid :: "string option"
  info_transaction_id :: "string option"
  info_course_mode :: "string option"

text \<open>
  A result of \<open>enroll_subsidy_users_in_courses\<close>: email, course run key, whether the
  enrollment was created, the activation link if any, and the user object under the key
  \<open>user\<close> if it is there.
\<close>

record enrollment_result =
  r_email :: string
  r_course_run_key :: string
  r_created :: bool
  r_activation_link :: "string option"
  r_user :: "string option"

record enrollment_results =
  successes :: "enrollment_result list"
  pending :: "enrollment_result list"
  failures :: "enrollment_result list"

text \<open>The results returned to the client: the two lists of invalid identities are optional keys.\<close>

record bulk_results = enrollment_results +
  invalid_user_ids :: "nat list option"
  invalid_email_addresses :: "string list option"

text \<open>
  The validated data of the serializer; \<open>Invalid\<close> is \<open>is_valid\<close> raising, with the errors
  of the serializer.
\<close>

record validated_data =
  vd_licenses_info :: "enrollment_info list option"
  vd_enrollments_info :: "enrollment_info list option"
  vd_discount :: "int option"
  vd_notify :: "bool option"

datatype serializer_outcome = Invalid string | Valid validated_data

text \<open>
  An attempt to terminate an enrollment ended with a status, or failed with the message of an
  \<open>EnrollmentModificationException\<close>. One pass of the expiration loop skipped its licensed
  enrollment as revoked before, skipped it as modified at or after the cutoff, or made an
  attempt.
\<close>

datatype attempt = Terminated termination_status | Failed string

datatype item_outcome = AlreadyRevoked | ModifiedPastCutoff | Attempted attempt

section \<open>The world outside the views\<close>

text \<open>
  Every call that changes something outside the view is recorded, in order.
  \<open>UpdateEnrollment username course_id mode is_active\<close> is a call of
  \<open>enrollment_api.update_enrollment\<close> with the keyword arguments given (\<open>None\<close>: not passed);
  \<open>Revoke kind uuid\<close> is \<open>revoke()\<close> on the fulfillment row with that uuid; the others
  are \<open>link_user\<close> with an email, \<open>enroll_subsidy_users_in_courses\<close> with the requests and
  the discount, \<open>track_enrollment\<close> with a course run, and \<open>notify_enrolled_learners\<close> with
  a course run, the users and the activation links.
\<close>

datatype call =
    UpdateEnrollment string string "string option" "bool option"
  | Revoke subsidy_kind string
  | LinkUser string
  | EnrollSubsidyUsers "enrollment_info list" int
  | TrackEnrollment string
  | NotifyEnrolledLearners string "string list" "(string \<times> string) list"

text \<open>
  The world: the two tables of fulfillments, the calls made so far, and the lines the
  expiration loop wrote to the log, each kept as the licensed enrollment and what the pass
  did with it.
\<close>

record world =
  credit_table :: "fulfillment list"
  licensed_table :: "fulfillment list"
  calls :: "call list"
  expiration_log :: "(fulfillment \<times> item_outcome) list"

definition record_call :: "call \<Rightarrow> world \<Rightarrow> world" where
  "record_call c w = w\<lparr>calls := calls w @ [c]\<rparr>"

definition write_log :: "fulfillment \<Rightarrow> item_outcome \<Rightarrow> world \<Rightarrow> world" where
  "write_log l outcome w = w\<lparr>expiration_log := expiration_log w @ [(l, outcome)]\<rparr>"

text \<open>The calls made, and the log lines written, between an earlier world and a later one.\<close>

definition new_calls :: "world \<Rightarrow> world \<Rightarrow> call list" where
  "new_calls w w' = drop (length (calls w)) (calls w')"

definition new_log :: "world \<Rightarrow> world \<Rightarrow> (fulfillment \<times> item_outcome) list" where
  "new_log w w' = drop (length (expiration_log w)) (expiration_log w')"

text \<open>
  Modelled from the spec: \<open>revoke()\<close> of a subsidy fulfillment, defined in the models module.
  The spec gives the row an \<open>is_revoked\<close> flag that the operation sets; the call is recorded.
\<close>

definition mark_revoked :: "string \<Rightarrow> fulfillment list \<Rightarrow> fulfillment list" where
  "mark_revoked uuid rows = map (\<lambda>f. if f_uuid f = uuid then f\<lparr>f_is_revoked := True\<rparr> else f) rows"

fun revoke :: "subsidy_kind \<Rightarrow> string \<Rightarrow> world \<Rightarrow> world" where
  "revoke LearnerCredit uuid w =
     record_call (Revoke LearnerCredit uuid) (w\<lparr>credit_table := mark_revoked uuid (credit_table w)\<rparr>)"
| "revoke Licensed uuid w =
     record_call (Revoke Licensed uuid) (w\<lparr>licensed_table := mark_revoked uuid (licensed_table w)\<rparr>)"

text \<open>
  The collaborators the views call, as functions of the world at the time of the call:
  \<^item> \<open>connected\<close>: the platform modules were imported (\<open>all(dependencies)\<close>);
  \<^item> \<open>get_certificate_for_user\<close>, \<open>get_course_run_status\<close>, \<open>get_course_overviews\<close>:
    platform reads;
  \<^item> \<open>mode_for_course\<close>: whether \<open>CourseMode.mode_for_course\<close> returns a mode;
  \<^item> \<open>update_enrollment\<close>: \<open>None\<close> when the call returns, \<open>Some reason\<close> when it raises
    an exception whose \<open>str\<close> is \<open>reason\<close>;
  \<^item> \<open>course_enrollment_history\<close>: the rows of \<open>CourseEnrollment.history\<close> as
    (user id, course id, history date);
  \<^item> \<open>parse_datetime\<close>: Django's parser, \<open>None\<close> on a malformed string;
  \<^item> \<open>customer_user_exists\<close>: an \<open>EnterpriseCustomerUser\<close> row for (user id, customer);
  \<^item> \<open>enrollments_for_user\<close>: \<open>LicensedEnterpriseCourseEnrollment.enrollments_for_user\<close>;
  \<^item> \<open>get_enterprise_customer_from_user_id\<close>: the customer uuid of a user, if any;
  \<^item> \<open>get_best_mode_from_course_key\<close>: the enrollment mode for a course run;
  \<^item> \<open>user_email_by_id\<close>: the email of the first \<open>User\<close> with an id, if there is one;
  \<^item> \<open>validate_email_to_link\<close>: false when the call raises \<open>ValidationError\<close>;
  \<^item> \<open>link_user\<close>: false when the call raises \<open>LinkUserToEnterpriseError\<close>;
  \<^item> \<open>enroll_subsidy_users_in_courses\<close>: the results for the requests and the discount;
  \<^item> \<open>iteration_order\<close>: the order in which the interpreter iterates a set of strings,
    given its elements in the order they were added.
  The bulk enrollment acts for one enterprise customer, which the collaborators have fixed.
\<close>

record env =
  connected :: bool
  get_certificate_for_user :: "world \<Rightarrow> string \<Rightarrow> string \<Rightarrow> certificate option"
  get_course_run_status ::
    "world \<Rightarrow> course_overview \<Rightarrow> certificate \<Rightarrow> enterprise_course_enrollment \<Rightarrow> progress_status"
  get_course_overviews :: "world \<Rightarrow> string list \<Rightarrow> course_overview list"
  mode_for_course :: "world \<Rightarrow> string \<Rightarrow> string \<Rightarrow> bool"
  update_enrollment :: "world \<Rightarrow> string \<Rightarrow> string \<Rightarrow> string option \<Rightarrow> bool option \<Rightarrow> string option"
  course_enrollment_history :: "world \<Rightarrow> (nat \<times> string \<times> timestamp) list"
  parse_datetime :: "string \<Rightarrow> timestamp option"
  customer_user_exists :: "world \<Rightarrow> nat \<Rightarrow> string \<Rightarrow> bool"
  enrollments_for_user :: "world \<Rightarrow> nat \<Rightarrow> string \<Rightarrow> fulfillment list"
  get_enterprise_customer_from_user_id :: "world \<Rightarrow> nat \<Rightarrow> string option"
  get_best_mode_from_course_key :: "world \<Rightarrow> string \<Rightarrow> string"
  user_email_by_id :: "world \<Rightarrow> nat \<Rightarrow> string option"
  validate_email_to_link :: "world \<Rightarrow> string \<Rightarrow> bool"
  link_user :: "world \<Rightarrow> string \<Rightarrow> bool"
  enroll_subsidy_users_in_courses :: "world \<Rightarrow> enrollment_info list \<Rightarrow> int \<Rightarrow> enrollment_results"
  iteration_order :: "string list \<Rightarrow> string list"

text \<open>An HTTP response: status code and body.\<close>

datatype serializer_class =
    LearnerCreditEnterpriseCourseEnrollmentReadOnlySerializer
  | LicensedEnterpriseCourseEnrollmentReadOnlySerializer

datatype body =
    NoBody
  | Text string
  | Detail string
  | DetailList "string list"
  | Serialized serializer_class fulfillment
  | RevocationResults "(string \<times> bool \<times> string) list"
  | BulkResults bulk_results

record response =
  status :: nat
  data :: body

definition Response :: "nat \<Rightarrow> body \<Rightarrow> response" where
  "Response code b = \<lparr>status = code, data = b\<rparr>"

section \<open>Subsidy fulfillments: \<open>EnterpriseSubsidyFulfillmentViewSet\<close>\<close>

text \<open>The requesting user: id and staff flag.\<close>

record requester =
  req_user_id :: nat
  req_is_staff :: bool

definition enrollment_enterprise :: "fulfillment \<Rightarrow> string option" where
  "enrollment_enterprise f = (case f_enrollment f of None \<Rightarrow> None | Some e \<Rightarrow> Some (ece_enterprise e))"

text \<open>
  The filter \<open>subsidy_fulfillment_filter\<close>: the customer uuid reached through the enterprise
  course enrollment, or the one reached through the course entitlement, equals the
  requester's. A lookup with \<open>None\<close> is a test for null, which a missing relation passes,
  so both sides are options compared as such.
\<close>

definition subsidy_fulfillment_filter :: "string option \<Rightarrow> fulfillment \<Rightarrow> bool" where
  "subsidy_fulfillment_filter enterprise_customer_uuid f =
     (enrollment_enterprise f = enterprise_customer_uuid \<or>
      f_entitlement_enterprise f = enterprise_customer_uuid)"

definition not_found_message :: string where
  "not_found_message = ''No enrollment found for the given fulfillment source uuid.''"

text \<open>
  \<open>get_subsidy_fulfillment_queryset\<close>: learner credit rows first, licensed rows second; the
  tenant filter applies unless the requester is staff.
\<close>

definition get_subsidy_fulfillment_queryset ::
  "env \<Rightarrow> world \<Rightarrow> requester \<Rightarrow> string \<Rightarrow> error + subsidy_kind \<times> fulfillment list" where
  "get_subsidy_fulfillment_queryset env w request fulfillment_source_uuid =
    (let enterprise_customer_uuid = get_enterprise_customer_from_user_id env w (req_user_id request);
         learner_credit_enrollments =
           filter (\<lambda>f. f_uuid f = fulfillment_source_uuid) (credit_table w);
         learner_credit_enrollments =
           (if \<not> req_is_staff request
            then filter (subsidy_fulfillment_filter enterprise_customer_uuid) learner_credit_enrollments
            else learner_credit_enrollments)
     in if learner_credit_enrollments \<noteq> [] then Inr (LearnerCredit, learner_credit_enrollments)
        else
          let licensed_enrollments =
                filter (\<lambda>f. f_uuid f = fulfillment_source_uuid) (licensed_table w);
              licensed_enrollments =
                (if \<not> req_is_staff request
                 then filter (subsidy_fulfillment_filter enterprise_customer_uuid) licensed_enrollments
                 else licensed_enrollments)
          in if licensed_enrollments \<noteq> [] then Inr (Licensed, licensed_enrollments)
             else Inl (ValidationError not_found_message))"

text \<open>\<open>get_subsidy_fulfillment_serializer_class\<close> looks the uuid up without the tenant filter.\<close>

definition get_subsidy_fulfillment_serializer_class ::
  "world \<Rightarrow> string \<Rightarrow> error + serializer_class" where
  "get_subsidy_fulfillment_serializer_class w fulfillment_source_uuid =
    (if filter (\<lambda>f. f_uuid f = fulfillment_source_uuid) (credit_table w) \<noteq> []
     then Inr LearnerCreditEnterpriseCourseEnrollmentReadOnlySerializer
     else if filter (\<lambda>f. f_uuid f = fulfillment_source_uuid) (licensed_table w) \<noteq> []
     then Inr LicensedEnterpriseCourseEnrollmentReadOnlySerializer
     else Inl (ValidationError not_found_message))"

text \<open>\<open>get_object_or_404\<close> on a queryset: exactly one row must match.\<close>

definition get_object_or_404 :: "fulfillment list \<Rightarrow> string \<Rightarrow> error + fulfillment" where
  "get_object_or_404 queryset uuid =
    (case filter (\<lambda>f. f_uuid f = uuid) queryset of
       [] \<Rightarrow> Inl Http404
     | [f] \<Rightarrow> Inr f
     | _ \<Rightarrow> Inl MultipleObjectsReturned)"

text \<open>
  \<open>retrieve\<close>: a \<open>ValidationError\<close> of the lookups becomes the 404 response with the detail
  of the exception; any other exception leaves the view.
\<close>

definition not_found_response :: response where
  "not_found_response = Response 404 (DetailList [not_found_message])"

definition retrieve :: "env \<Rightarrow> world \<Rightarrow> requester \<Rightarrow> string \<Rightarrow> error + response" where
  "retrieve env w request fulfillment_source_uuid =
    (case get_subsidy_fulfillment_queryset env w request fulfillment_source_uuid of
       Inl (ValidationError detail) \<Rightarrow> Inr (Response 404 (DetailList [detail]))
     | Inl e \<Rightarrow> Inl e
     | Inr (kind, queryset) \<Rightarrow>
        (case get_object_or_404 queryset fulfillment_source_uuid of
           Inl e \<Rightarrow> Inl e
         | Inr fulfillment \<Rightarrow>
            (case get_subsidy_fulfillment_serializer_class w fulfillment_source_uuid of
               Inl (ValidationError detail) \<Rightarrow> Inr (Response 404 (DetailList [detail]))
             | Inl e \<Rightarrow> Inl e
             | Inr serializer_class \<Rightarrow> Inr (Response 200 (Serialized serializer_class fulfillment)))))"

definition cancel_failure_msg :: "enterprise_course_enrollment \<Rightarrow> string \<Rightarrow> string" where
  "cancel_failure_msg e reason =
     ''Subsidized enrollment terminations error: unable to unenroll User '' @ ece_username e @
     '' from Course '' @ ece_course_id e @ '' because: '' @ reason"

text \<open>
  \<open>cancel_enrollment\<close>. The revoked flag is tested right after the lookup. In the second
  \<open>try\<close> block a fulfillment without an enterprise course enrollment raises inside the block,
  and the handler then reads \<open>username\<close> before it was bound.
\<close>

definition cancel_enrollment ::
  "env \<Rightarrow> world \<Rightarrow> requester \<Rightarrow> string \<Rightarrow> (error + response) \<times> world" where
  "cancel_enrollment env w request fulfillment_source_uuid =
    (case get_subsidy_fulfillment_queryset env w request fulfillment_source_uuid of
       Inl (ValidationError detail) \<Rightarrow> (Inr (Response 404 (DetailList [detail])), w)
     | Inl e \<Rightarrow> (Inl e, w)
     | Inr (kind, queryset) \<Rightarrow>
        (case get_object_or_404 queryset fulfillment_source_uuid of
           Inl e \<Rightarrow> (Inl e, w)
         | Inr subsidy_fulfillment \<Rightarrow>
            if f_is_revoked subsidy_fulfillment
            then (Inr (Response 400 (Detail ''Enrollment is already canceled.'')), w)
            else
              (case f_enrollment subsidy_fulfillment of
                 None \<Rightarrow> (Inl UnboundLocalError, w)
               | Some e \<Rightarrow>
                  (case update_enrollment env w (ece_username e) (ece_course_id e) None (Some False) of
                     Some reason \<Rightarrow>
                       (Inr (Response 500 (Text (cancel_failure_msg e reason))),
                        record_call (UpdateEnrollment (ece_username e) (ece_course_id e) None
                                       (Some False)) w)
                   | None \<Rightarrow>
                       (Inr (Response 200 NoBody),
                        revoke kind (f_uuid subsidy_fulfillment)
                          (record_call (UpdateEnrollment (ece_username e) (ece_course_id e) None
                                          (Some False)) w))))))"

section \<open>Enrollment termination: \<open>LicensedEnterpriseCourseEnrollmentViewSet\<close>\<close>

text \<open>\<open>CourseMode.AUDIT\<close> of the platform.\<close>

definition AUDIT :: string where
  "AUDIT = ''audit''"

text \<open>
  \<open>_has_user_completed_course_run\<close>: the certificate, or the empty dictionary when there is
  none, goes to \<open>get_course_run_status\<close>; completed means that status is \<open>COMPLETED\<close>.
\<close>

definition has_user_completed_course_run ::
  "env \<Rightarrow> world \<Rightarrow> enterprise_course_enrollment \<Rightarrow> course_overview \<Rightarrow> bool" where
  "has_user_completed_course_run env w enterprise_enrollment course_overview =
    (let certificate_info =
           (case get_certificate_for_user env w (ece_username enterprise_enrollment)
                   (co_id course_overview) of
              None \<Rightarrow> [] | Some c \<Rightarrow> c);
         course_run_status =
           get_course_run_status env w course_overview certificate_info enterprise_enrollment
     in course_run_status = COMPLETED)"

text \<open>The two messages of \<open>_terminate_enrollment\<close> for a failed update.\<close>

definition audit_failure_msg :: "enterprise_course_enrollment \<Rightarrow> string \<Rightarrow> string \<Rightarrow> string" where
  "audit_failure_msg e course_run_id reason =
     ''Enrollment termination: unable to update LMS enrollment for User '' @ ece_username e @
     '' and Enterprise '' @ ece_enterprise e @ '' in Course '' @ course_run_id @
     '' to Course Mode '' @ AUDIT @ '' because: '' @ reason"

definition unenroll_failure_msg :: "enterprise_course_enrollment \<Rightarrow> string \<Rightarrow> string \<Rightarrow> string" where
  "unenroll_failure_msg e course_run_id reason =
     ''Enrollment termination: unable to unenroll User '' @ ece_username e @
     '' in Enterprise '' @ ece_enterprise e @ '' from Course '' @ course_run_id @
     ''  because: '' @ reason"

text \<open>
  \<open>_terminate_enrollment\<close>. Reading \<open>course_overview.get\<close> on \<open>None\<close>, or
  \<open>enterprise_enrollment.enterprise_customer_user\<close> on \<open>None\<close>, raises \<open>AttributeError\<close>.
  A completed course run is left alone. Otherwise the enrollment is moved to the audit mode
  when the course run has one, and deactivated when it has none; an exception of
  \<open>update_enrollment\<close> becomes an \<open>EnrollmentModificationException\<close>.
\<close>

definition terminate_enrollment ::
  "env \<Rightarrow> world \<Rightarrow> enterprise_course_enrollment option \<Rightarrow> course_overview option \<Rightarrow>
   (error + termination_status) \<times> world" where
  "terminate_enrollment env w enterprise_enrollment course_overview =
    (case course_overview of
       None \<Rightarrow> (Inl AttributeError, w)
     | Some co \<Rightarrow>
    (case enterprise_enrollment of
       None \<Rightarrow> (Inl AttributeError, w)
     | Some e \<Rightarrow>
       let course_run_id = co_id co in
       if has_user_completed_course_run env w e co then (Inr COURSE_COMPLETED, w)
       else if mode_for_course env w course_run_id AUDIT then
         (case update_enrollment env w (ece_username e) course_run_id (Some AUDIT) None of
            None \<Rightarrow>
              (Inr MOVED_TO_AUDIT,
               record_call (UpdateEnrollment (ece_username e) course_run_id (Some AUDIT) None) w)
          | Some reason \<Rightarrow>
              (Inl (EnrollmentModificationException (audit_failure_msg e course_run_id reason)),
               record_call (UpdateEnrollment (ece_username e) course_run_id (Some AUDIT) None) w))
       else
         (case update_enrollment env w (ece_username e) course_run_id None (Some False) of
            None \<Rightarrow>
              (Inr UNENROLLED,
               record_call (UpdateEnrollment (ece_username e) course_run_id None (Some False)) w)
          | Some reason \<Rightarrow>
              (Inl (EnrollmentModificationException (unenroll_failure_msg e course_run_id reason)),
               record_call (UpdateEnrollment (ece_username e) course_run_id None (Some False)) w))))"


text \<open>
  A dictionary built by assigning key after key keeps the last value assigned to a key;
  \<open>dict_get\<close> is \<open>dict.get\<close>.
\<close>

definition dict_get :: "('k \<times> 'v) list \<Rightarrow> 'k \<Rightarrow> 'v option" where
  "dict_get assignments k = map_of (rev assignments) k"


text \<open>
  The \<open>try\<close> block both revocation loops share: terminate, then revoke the license unless
  the course was completed. Only \<open>EnrollmentModificationException\<close> is caught; the attempt
  then failed with the message of the exception.
\<close>

definition terminate_and_revoke ::
  "env \<Rightarrow> world \<Rightarrow> fulfillment option \<Rightarrow> course_overview option \<Rightarrow> (error + attempt) \<times> world" where
  "terminate_and_revoke env w licensed course_overview =
    (case terminate_enrollment env w (case licensed of None \<Rightarrow> None | Some l \<Rightarrow> f_enrollment l)
            course_overview of
       (Inr termination_status, w') \<Rightarrow>
         if termination_status \<noteq> COURSE_COMPLETED
         then (case licensed of
                 None \<Rightarrow> (Inl AttributeError, w')
               | Some l \<Rightarrow> (Inr (Terminated termination_status), revoke Licensed (f_uuid l) w'))
         else (Inr (Terminated termination_status), w')
     | (Inl (EnrollmentModificationException msg), w') \<Rightarrow> (Inr (Failed msg), w')
     | (Inl e, w') \<Rightarrow> (Inl e, w'))"

text \<open>
  The loop of \<open>license_revoke\<close> over the course overviews: \<open>revocation_results\<close> gets an entry
  per course id, \<open>any_failures\<close> is raised by a caught exception.
\<close>

fun result_entry :: "attempt \<Rightarrow> bool \<times> string" where
  "result_entry (Terminated s) = (True, status_message s)"
| "result_entry (Failed msg) = (False, msg)"

fun is_failure :: "attempt \<Rightarrow> bool" where
  "is_failure (Failed msg) = True"
| "is_failure (Terminated s) = False"

text \<open>Assignment to a dictionary key, and the keys in the order of their first assignment.\<close>

definition dict_set :: "'k \<Rightarrow> 'v \<Rightarrow> ('k \<times> 'v) list \<Rightarrow> ('k \<times> 'v) list" where
  "dict_set k v d = (if k \<in> fst ` set d then map (\<lambda>(k', v'). if k' = k then (k', v) else (k', v')) d
                     else d @ [(k, v)])"

definition dict_keys :: "('k \<times> 'v) list \<Rightarrow> 'k list" where
  "dict_keys assignments = rev (remdups (rev (map fst assignments)))"

fun license_revoke_loop ::
  "env \<Rightarrow> (string \<times> fulfillment) list \<Rightarrow> course_overview list \<Rightarrow>
   (string \<times> bool \<times> string) list \<Rightarrow> bool \<Rightarrow> world \<Rightarrow>
   (error + (string \<times> bool \<times> string) list \<times> bool) \<times> world" where
  "license_revoke_loop env enrollments_by_course_id [] revocation_results any_failures w =
     (Inr (revocation_results, any_failures), w)"
| "license_revoke_loop env enrollments_by_course_id (course_overview # rest)
       revocation_results any_failures w =
     (let course_id = co_id course_overview;
          enterprise_enrollment = dict_get enrollments_by_course_id course_id
      in case terminate_and_revoke env w enterprise_enrollment (Some course_overview) of
           (Inl e, w') \<Rightarrow> (Inl e, w')
         | (Inr outcome, w') \<Rightarrow>
             license_revoke_loop env enrollments_by_course_id rest
               (dict_set course_id (result_entry outcome) revocation_results)
               (any_failures \<or> is_failure outcome) w')"


section \<open>The bulk expiration of licensed enrollments\<close>

text \<open>\<open>str\<close> of a non-negative integer: its decimal digits.\<close>

definition digit_char :: "nat \<Rightarrow> char" where
  "digit_char d = ''0123456789'' ! d"

fun str_nat :: "nat \<Rightarrow> string" where
  "str_nat n = (if n < 10 then [digit_char n] else str_nat (n div 10) @ [digit_char (n mod 10)])"

declare str_nat.simps [simp del]

text \<open>The key \<open>f'{user_id}{course_id}'\<close>.\<close>

definition modified_at_key :: "nat \<Rightarrow> string \<Rightarrow> string" where
  "modified_at_key user_id course_id = str_nat user_id @ course_id"

text \<open>
  \<open>_course_enrollment_modified_at_by_user_and_course_id\<close>: the history rows whose user id is
  among the user ids and whose course id is among the course ids of the licensed
  enrollments, latest first; the first row seen for a key gives the key its date.
\<close>

definition course_enrollment_modified_at_by_user_and_course_id ::
  "env \<Rightarrow> world \<Rightarrow> fulfillment list \<Rightarrow> error + (string \<times> timestamp) list" where
  "course_enrollment_modified_at_by_user_and_course_id env w licensed_enrollments =
    (if \<exists>l \<in> set licensed_enrollments. f_enrollment l = None then Inl AttributeError
     else
       let enterprise_course_enrollments = map (\<lambda>l. the (f_enrollment l)) licensed_enrollments;
           user_ids = map ece_user_id enterprise_course_enrollments;
           course_ids = map ece_course_id enterprise_course_enrollments;
           course_enrollment_histories =
             rev (sort_key (\<lambda>(user_id, course_id, history_date). history_date)
                    (filter (\<lambda>(user_id, course_id, history_date).
                               user_id \<in> set user_ids \<and> course_id \<in> set course_ids)
                       (course_enrollment_history env w)))
       in Inr (map (\<lambda>(user_id, course_id, history_date).
                      (modified_at_key user_id course_id, history_date))
                 course_enrollment_histories))"

fun item_failed :: "item_outcome \<Rightarrow> bool" where
  "item_failed (Attempted a) = is_failure a"
| "item_failed AlreadyRevoked = False"
| "item_failed ModifiedPastCutoff = False"

text \<open>
  One pass of the loop of \<open>bulk_licensed_enrollments_expiration\<close>. Each way through the
  pass that does not raise writes its line to the log. The user id is read
  through the enterprise course enrollment before anything else. The dictionary of
  modification times is an association list in which the first entry of a key counts;
  indexing it with a missing key raises \<open>KeyError\<close>.
\<close>

definition attempt_expiration ::
  "env \<Rightarrow> world \<Rightarrow> fulfillment \<Rightarrow> course_overview option \<Rightarrow> (error + item_outcome) \<times> world" where
  "attempt_expiration env w licensed_enrollment course_overview =
    (case terminate_and_revoke env w (Some licensed_enrollment) course_overview of
       (Inl e, w') \<Rightarrow> (Inl e, w')
     | (Inr a, w') \<Rightarrow> (Inr (Attempted a), write_log licensed_enrollment (Attempted a) w'))"

definition expire_licensed_enrollment ::
  "env \<Rightarrow> timestamp option \<Rightarrow> (string \<times> course_overview) list \<Rightarrow> (string \<times> timestamp) list \<Rightarrow>
   fulfillment \<Rightarrow> world \<Rightarrow> (error + item_outcome) \<times> world" where
  "expire_licensed_enrollment env ignore_enrollments_modified_after indexed_overviews
       modified_at licensed_enrollment w =
    (case f_enrollment licensed_enrollment of
       None \<Rightarrow> (Inl AttributeError, w)
     | Some enterprise_course_enrollment \<Rightarrow>
       let user_id = ece_user_id enterprise_course_enrollment;
           course_id = ece_course_id enterprise_course_enrollment;
           course_overview = dict_get indexed_overviews course_id
       in if f_is_revoked licensed_enrollment
          then (Inr AlreadyRevoked, write_log licensed_enrollment AlreadyRevoked w)
          else
            (case ignore_enrollments_modified_after of
               None \<Rightarrow> attempt_expiration env w licensed_enrollment course_overview
             | Some cutoff \<Rightarrow>
                 (case map_of modified_at (modified_at_key user_id course_id) of
                    None \<Rightarrow> (Inl KeyError, w)
                  | Some course_enrollment_modified_at \<Rightarrow>
                      if course_enrollment_modified_at \<ge> cutoff
                      then (Inr ModifiedPastCutoff,
                            write_log licensed_enrollment ModifiedPastCutoff w)
                      else attempt_expiration env w licensed_enrollment course_overview)))"

fun expiration_loop ::
  "env \<Rightarrow> timestamp option \<Rightarrow> (string \<times> course_overview) list \<Rightarrow> (string \<times> timestamp) list \<Rightarrow>
   fulfillment list \<Rightarrow> bool \<Rightarrow> world \<Rightarrow> (error + bool) \<times> world" where
  "expiration_loop env cutoff indexed_overviews modified_at [] any_failures w =
     (Inr any_failures, w)"
| "expiration_loop env cutoff indexed_overviews modified_at (licensed_enrollment # rest)
       any_failures w =
     (case expire_licensed_enrollment env cutoff indexed_overviews modified_at
             licensed_enrollment w of
        (Inl e, w') \<Rightarrow> (Inl e, w')
      | (Inr outcome, w') \<Rightarrow>
          expiration_loop env cutoff indexed_overviews modified_at rest
            (any_failures \<or> item_failed outcome) w')"

text \<open>
  \<open>bulk_licensed_enrollments_expiration\<close>, from the two request values: the list of expired
  license uuids and the optional cutoff string.
\<close>

definition bulk_licensed_enrollments_expiration ::
  "env \<Rightarrow> world \<Rightarrow> string list \<Rightarrow> string option \<Rightarrow> (error + response) \<times> world" where
  "bulk_licensed_enrollments_expiration env w expired_license_uuids
       ignore_enrollments_modified_after =
    (if \<not> connected env then (Inl NotConnectedToOpenEdX, w)
     else if expired_license_uuids = [] then
       (Inr (Response 400 (Text ''Parameter expired_license_uuids must be provided'')), w)
     else
       let given = (case ignore_enrollments_modified_after of
                      None \<Rightarrow> False | Some raw \<Rightarrow> raw \<noteq> []);
           cutoff = (if given then parse_datetime env (the ignore_enrollments_modified_after)
                     else None)
       in if given \<and> cutoff = None then
            (Inr (Response 400 (Text (''Parameter ignore_enrollments_modified_after is malformed, ''
                     @ ''please provide a date in ISO-8601 format''))), w)
          else
            let licensed_enrollments =
                  filter (\<lambda>l. f_license_uuid l \<in> set expired_license_uuids) (licensed_table w);
                course_overviews =
                  get_course_overviews env w
                    (map (\<lambda>l. ece_course_id (the (f_enrollment l)))
                       (filter (\<lambda>l. f_enrollment l \<noteq> None) licensed_enrollments));
                indexed_overviews = map (\<lambda>overview. (co_id overview, overview)) course_overviews
            in case (if given
                     then course_enrollment_modified_at_by_user_and_course_id env w
                            licensed_enrollments
                     else Inr []) of
                 Inl e \<Rightarrow> (Inl e, w)
               | Inr modified_at \<Rightarrow>
                   (case expiration_loop env cutoff indexed_overviews modified_at
                           licensed_enrollments False w of
                      (Inl e, w') \<Rightarrow> (Inl e, w')
                    | (Inr any_failures, w') \<Rightarrow>
                        (Inr (Response (if \<not> any_failures then 200 else 422) NoBody), w')))"

text \<open>
  The words of the specification on the cutoff: the modification dates that the history has
  for a user and a course, and, for comparison, the dates of the rows fetched for a batch
  that fall under one key.
\<close>

definition history_dates_of_pair :: "(nat \<times> string \<times> timestamp) list \<Rightarrow> nat \<Rightarrow> string \<Rightarrow> timestamp list" where
  "history_dates_of_pair history user_id course_id =
     map (\<lambda>(u, c, d). d) (filter (\<lambda>(u, c, d). u = user_id \<and> c = course_id) history)"

definition history_dates_of_key ::
  "(nat \<times> string \<times> timestamp) list \<Rightarrow> fulfillment list \<Rightarrow> string \<Rightarrow> timestamp list" where
  "history_dates_of_key history licensed_enrollments key =
     map (\<lambda>(u, c, d). d)
       (filter (\<lambda>(u, c, d).
                  u \<in> set (map (\<lambda>l. ece_user_id (the (f_enrollment l))) licensed_enrollments) \<and>
                  c \<in> set (map (\<lambda>l. ece_course_id (the (f_enrollment l))) licensed_enrollments) \<and>
                  modified_at_key u c = key)
          history)"

section \<open>Bulk enrollment: \<open>EnterpriseCustomerViewSet.enroll_learners_in_courses\<close>\<close>

text \<open>
  \<open>set.add\<close> on a set kept as the list of its elements in the order they were first added.
\<close>

definition set_add :: "'a \<Rightarrow> 'a list \<Rightarrow> 'a list" where
  "set_add x xs = (if x \<in> set xs then xs else xs @ [x])"

text \<open>
  The first loop over \<open>enrollments_info\<close>: a request with a user id gets the email of that
  user, or its user id is recorded as an error; a request without one contributes its email
  (\<open>info['email']\<close> raises \<open>KeyError\<close> when it has none either). Every request that is
  passed gets its course mode. The result is the updated requests, the emails and the
  user id errors.
\<close>

fun resolve_users ::
  "env \<Rightarrow> world \<Rightarrow> (string \<times> string) list \<Rightarrow> enrollment_info list \<Rightarrow>
   enrollment_info list \<Rightarrow> string list \<Rightarrow> nat list \<Rightarrow>
   error + enrollment_info list \<times> string list \<times> nat list" where
  "resolve_users env w course_runs_modes [] resolved emails user_id_errors =
     Inr (resolved, emails, user_id_errors)"
| "resolve_users env w course_runs_modes (info # rest) resolved emails user_id_errors =
     (let course_mode = dict_get course_runs_modes (info_course_run_key info) in
      case info_user_id info of
        Some user_id \<Rightarrow>
          (case user_email_by_id env w user_id of
             Some email \<Rightarrow>
               resolve_users env w course_runs_modes rest
                 (resolved @ [info\<lparr>info_email := Some email, info_course_mode := course_mode\<rparr>])
                 (set_add email emails) user_id_errors
           | None \<Rightarrow>
               resolve_users env w course_runs_modes rest
                 (resolved @ [info\<lparr>info_course_mode := course_mode\<rparr>])
                 emails (user_id_errors @ [user_id]))
      | None \<Rightarrow>
          (case info_email info of
             None \<Rightarrow> Inl KeyError
           | Some email \<Rightarrow>
               resolve_users env w course_runs_modes rest
                 (resolved @ [info\<lparr>info_course_mode := course_mode\<rparr>])
                 (set_add email emails) user_id_errors))"

text \<open>The validation loop: the emails that \<open>validate_email_to_link\<close> rejects, in order.\<close>

definition validate_emails :: "env \<Rightarrow> world \<Rightarrow> string list \<Rightarrow> string list" where
  "validate_emails env w emails = filter (\<lambda>email. \<not> validate_email_to_link env w email) emails"

text \<open>
  The linking loop: \<open>link_user\<close> is called for each email of the same iteration; an email
  whose call raises \<open>LinkUserToEnterpriseError\<close> is appended to the email errors.
\<close>

fun link_emails :: "env \<Rightarrow> string list \<Rightarrow> string list \<Rightarrow> world \<Rightarrow> string list \<times> world" where
  "link_emails env [] email_errors w = (email_errors, w)"
| "link_emails env (email # rest) email_errors w =
     (if link_user env w email
      then link_emails env rest email_errors (record_call (LinkUser email) w)
      else link_emails env rest (email_errors @ [email]) (record_call (LinkUser email) w))"

text \<open>
  The filter on \<open>enrollments_info\<close>: \<open>info.get\<close> of a missing key is \<open>None\<close>, which is in
  neither list.
\<close>

definition remove_bad_requests ::
  "string list \<Rightarrow> nat list \<Rightarrow> enrollment_info list \<Rightarrow> enrollment_info list" where
  "remove_bad_requests email_errors user_id_errors infos =
     filter (\<lambda>info. (case info_email info of None \<Rightarrow> True | Some email \<Rightarrow> email \<notin> set email_errors) \<and>
                     (case info_user_id info of None \<Rightarrow> True
                      | Some user_id \<Rightarrow> user_id \<notin> set user_id_errors))
       infos"

text \<open>The activation links of the successes, then of the pending results, by email.\<close>

fun collect_activation_links ::
  "enrollment_result list \<Rightarrow> (string \<times> string) list \<Rightarrow> (string \<times> string) list" where
  "collect_activation_links [] activation_links = activation_links"
| "collect_activation_links (result # rest) activation_links =
     (case r_activation_link result of
        None \<Rightarrow> collect_activation_links rest activation_links
      | Some link \<Rightarrow> collect_activation_links rest (dict_set (r_email result) link activation_links))"

text \<open>
  The loop over the course runs. The users are popped from the created results of the
  course run, pending ones first; \<open>pop\<close> without a default raises \<open>KeyError\<close> on a result
  with no user. A course run with users is tracked and, on request, notified.
\<close>

fun notify_course_runs ::
  "bool \<Rightarrow> (string \<times> string) list \<Rightarrow> enrollment_result list \<Rightarrow> enrollment_result list \<Rightarrow>
   string list \<Rightarrow> world \<Rightarrow> (error + unit) \<times> world" where
  "notify_course_runs notify_learners activation_links pending_results success_results [] w = (Inr (), w)"
| "notify_course_runs notify_learners activation_links pending_results success_results (course_run # rest) w =
     (let created_pending =
            filter (\<lambda>result. r_course_run_key result = course_run \<and> r_created result) pending_results;
          created_successes =
            filter (\<lambda>result. r_course_run_key result = course_run \<and> r_created result) success_results
      in if \<exists>result \<in> set (created_pending @ created_successes). r_user result = None
         then (Inl KeyError, w)
         else
           let users = remdups (map (\<lambda>result. the (r_user result))
                                  (created_pending @ created_successes))
           in if users \<noteq> []
              then notify_course_runs notify_learners activation_links pending_results success_results rest
                     (let w1 = record_call (TrackEnrollment course_run) w
                      in if notify_learners
                         then record_call (NotifyEnrolledLearners course_run users activation_links) w1
                         else w1)
              else notify_course_runs notify_learners activation_links pending_results success_results rest w)"

definition strip_user :: "enrollment_result \<Rightarrow> enrollment_result" where
  "strip_user result = result\<lparr>r_user := None\<rparr>"

text \<open>The status of the response, from the results and the two error lists.\<close>

definition bulk_status :: "enrollment_result list \<Rightarrow> enrollment_result list \<Rightarrow>
    string list \<Rightarrow> nat list \<Rightarrow> nat" where
  "bulk_status failed_results pending_results email_errors user_id_errors =
    (if failed_results \<noteq> [] \<or> email_errors \<noteq> [] \<or> user_id_errors \<noteq> [] then 409
     else if pending_results \<noteq> [] then 202
     else 201)"

text \<open>
  \<open>serialized_data.get('licenses_info', serialized_data.get('enrollments_info'))\<close>, and the
  list a key of the results holds when it is there.
\<close>

definition requested_infos :: "validated_data \<Rightarrow> enrollment_info list option" where
  "requested_infos serialized_data =
    (case vd_licenses_info serialized_data of
       Some infos \<Rightarrow> Some infos
     | None \<Rightarrow> vd_enrollments_info serialized_data)"

definition listed :: "'a list option \<Rightarrow> 'a list" where
  "listed key = (case key of None \<Rightarrow> [] | Some xs \<Rightarrow> xs)"

text \<open>
  \<open>enroll_learners_in_courses\<close>, from the outcome of the serializer. The emails are a set;
  both loops over it run in the order \<open>iteration_order\<close> gives.
\<close>

definition enroll_learners_in_courses ::
  "env \<Rightarrow> world \<Rightarrow> serializer_outcome \<Rightarrow> (error + response) \<times> world" where
  "enroll_learners_in_courses env w serializer =
    (case serializer of
       Invalid errors \<Rightarrow> (Inr (Response 400 (Text errors)), w)
     | Valid serialized_data \<Rightarrow>
    (case requested_infos serialized_data of
       None \<Rightarrow> (Inl TypeError, w)
     | Some enrollments_info \<Rightarrow>
       let discount = (case vd_discount serialized_data of None \<Rightarrow> 100 | Some d \<Rightarrow> d);
           course_runs = dict_keys (map (\<lambda>info. (info_course_run_key info, ())) enrollments_info);
           course_runs_modes =
             map (\<lambda>course_run. (course_run, get_best_mode_from_course_key env w course_run))
               course_runs
       in case resolve_users env w course_runs_modes enrollments_info [] [] [] of
            Inl e \<Rightarrow> (Inl e, w)
          | Inr (enrollments_info, emails, user_id_errors) \<Rightarrow>
            let emails = iteration_order env emails;
                email_errors = validate_emails env w emails;
                (email_errors, w1) = link_emails env emails email_errors w;
                enrollments_info = remove_bad_requests email_errors user_id_errors enrollments_info;
                results = enroll_subsidy_users_in_courses env w1 enrollments_info discount;
                w2 = record_call (EnrollSubsidyUsers enrollments_info discount) w1;
                activation_links =
                  collect_activation_links (successes results @ pending results) []
            in case notify_course_runs (vd_notify serialized_data = Some True) activation_links
                      (pending results) (successes results) course_runs w2 of
                 (Inl e, w3) \<Rightarrow> (Inl e, w3)
               | (Inr u, w3) \<Rightarrow>
                   (Inr (Response
                           (bulk_status (failures results) (pending results) email_errors
                              user_id_errors)
                           (BulkResults
                              \<lparr>successes = map strip_user (successes results),
                               pending = map strip_user (pending results),
                               failures = failures results,
                               invalid_user_ids =
                                 (if user_id_errors \<noteq> [] then Some user_id_errors else None),
                               invalid_email_addresses =
                                 (if email_errors \<noteq> [] then Some email_errors else None)\<rparr>)),
                    w3)))"

text \<open>
  The words of the specification on an unresolvable user id: the user ids of the requests,
  in order, for which no user exists.
\<close>

definition unresolved_user_ids :: "env \<Rightarrow> world \<Rightarrow> enrollment_info list \<Rightarrow> nat list" where
  "unresolved_user_ids env w infos =
     filter (\<lambda>user_id. user_email_by_id env w user_id = None)
       (concat (map (\<lambda>info. case info_user_id info of None \<Rightarrow> [] | Some user_id \<Rightarrow> [user_id])
                  infos))"

text \<open>The calls of \<open>revoke()\<close> among a list of calls.\<close>

fun is_revoke :: "call \<Rightarrow> bool" where
  "is_revoke (Revoke kind uuid) = True"
| "is_revoke (UpdateEnrollment username course_id mode is_active) = False"
| "is_revoke (LinkUser email) = False"
| "is_revoke (EnrollSubsidyUsers infos discount) = False"
| "is_revoke (TrackEnrollment course_run) = False"
| "is_revoke (NotifyEnrolledLearners course_run users links) = False"

definition revocations :: "world \<Rightarrow> world \<Rightarrow> call list" where
  "revocations w w' = filter is_revoke (new_calls w w')"

text \<open>The calls of \<open>enroll_subsidy_users_in_courses\<close>, and of \<open>link_user\<close>, among a list of calls.\<close>

fun is_enrollment_call :: "call \<Rightarrow> bool" where
  "is_enrollment_call (EnrollSubsidyUsers infos discount) = True"
| "is_enrollment_call (Revoke kind uuid) = False"
| "is_enrollment_call (UpdateEnrollment username course_id mode is_active) = False"
| "is_enrollment_call (LinkUser email) = False"
| "is_enrollment_call (TrackEnrollment course_run) = False"
| "is_enrollment_call (NotifyEnrolledLearners course_run users links) = False"

fun linked_email :: "call \<Rightarrow> string option" where
  "linked_email (LinkUser email) = Some email"
| "linked_email (EnrollSubsidyUsers infos discount) = None"
| "linked_email (Revoke kind uuid) = None"
| "linked_email (UpdateEnrollment username course_id mode is_active) = None"
| "linked_email (TrackEnrollment course_run) = None"
| "linked_email (NotifyEnrolledLearners course_run users links) = None"








text \<open>
  The world in which a loop reaches its item \<open>i\<close>: the one the loop leaves behind after the
  items before it.
\<close>

definition expiration_world ::
  "env \<Rightarrow> timestamp option \<Rightarrow> (string \<times> course_overview) list \<Rightarrow> (string \<times> timestamp) list \<Rightarrow>
   fulfillment list \<Rightarrow> nat \<Rightarrow> world \<Rightarrow> world" where
  "expiration_world env cutoff indexed_overviews modified_at items i w =
     snd (expiration_loop env cutoff indexed_overviews modified_at (take i items) False w)"

definition revocation_world ::
  "env \<Rightarrow> (string \<times> fulfillment) list \<Rightarrow> course_overview list \<Rightarrow> nat \<Rightarrow> world \<Rightarrow> world" where
  "revocation_world env enrollments_by_course_id overviews i w =
     snd (license_revoke_loop env enrollments_by_course_id (take i overviews) [] False w)"

section \<open>A small world for the examples\<close>

text \<open>
  An environment in which the course runs listed first are completed, those listed second
  have an audit mode, and \<open>update_enrollment\<close> raises for those listed third. Users 7 and 8
  exist; emails containing no \<open>@\<close> are rejected by the validation; \<open>link_user\<close> accepts every
  email; every request that has an email is enrolled with success.
\<close>

definition example_overview :: "string \<Rightarrow> course_overview" where
  "example_overview course_id = \<lparr>co_id = course_id, co_fields = []\<rparr>"

definition example_result :: "enrollment_info \<Rightarrow> enrollment_result" where
  "example_result info =
     \<lparr>r_email = (case info_email info of None \<Rightarrow> [] | Some email \<Rightarrow> email),
      r_course_run_key = info_course_run_key info, r_created = True,
      r_activation_link = None,
      r_user = Some (case info_email info of None \<Rightarrow> [] | Some email \<Rightarrow> email)\<rparr>"

definition example_env :: "string list \<Rightarrow> string list \<Rightarrow> string list \<Rightarrow> env" where
  "example_env completed with_audit failing =
     \<lparr>connected = True,
      get_certificate_for_user = (\<lambda>w username course_id. None),
      get_course_run_status =
        (\<lambda>w overview certificate e. if co_id overview \<in> set completed then COMPLETED else IN_PROGRESS),
      get_course_overviews = (\<lambda>w course_ids. map example_overview (remdups course_ids)),
      mode_for_course = (\<lambda>w course_id mode. course_id \<in> set with_audit),
      update_enrollment =
        (\<lambda>w username course_id mode is_active. if course_id \<in> set failing then Some ''down'' else None),
      course_enrollment_history = (\<lambda>w. [(7, ''c1'', 5), (7, ''c1'', 9), (8, ''c2'', 3)]),
      parse_datetime = (\<lambda>raw. if raw = ''t4'' then Some 4 else if raw = ''t7'' then Some 7 else None),
      customer_user_exists = (\<lambda>w user_id enterprise_id. True),
      enrollments_for_user =
        (\<lambda>w user_id enterprise_id.
           filter (\<lambda>l. case f_enrollment l of None \<Rightarrow> False
                        | Some e \<Rightarrow> ece_user_id e = user_id \<and> ece_enterprise e = enterprise_id)
             (licensed_table w)),
      get_enterprise_customer_from_user_id =
        (\<lambda>w user_id. if user_id = 7 then Some ''ent-a'' else if user_id = 8 then Some ''ent-b'' else None),
      get_best_mode_from_course_key = (\<lambda>w course_run. ''verified''),
      user_email_by_id =
        (\<lambda>w user_id. if user_id = 7 then Some ''a@x'' else if user_id = 8 then Some ''b@x'' else None),
      validate_email_to_link = (\<lambda>w email. CHR ''@'' \<in> set email),
      link_user = (\<lambda>w email. True),
      enroll_subsidy_users_in_courses =
        (\<lambda>w infos discount.
           \<lparr>successes = map example_result (filter (\<lambda>info. info_email info \<noteq> None) infos),
            pending = [], failures = []\<rparr>),
      iteration_order = (\<lambda>emails. emails)\<rparr>"

definition example_enrollment :: "nat \<Rightarrow> string \<Rightarrow> string \<Rightarrow> enterprise_course_enrollment" where
  "example_enrollment user_id enterprise course_id =
     \<lparr>ece_username = (if user_id = 7 then ''ann'' else ''bob''), ece_user_id = user_id,
      ece_enterprise = enterprise, ece_course_id = course_id\<rparr>"

definition example_row :: "string \<Rightarrow> bool \<Rightarrow> nat \<Rightarrow> string \<Rightarrow> string \<Rightarrow> fulfillment" where
  "example_row uuid revoked user_id enterprise course_id =
     \<lparr>f_uuid = uuid, f_license_uuid = ''L'' @ uuid, f_is_revoked = revoked,
      f_enrollment = Some (example_enrollment user_id enterprise course_id),
      f_entitlement_enterprise = None\<rparr>"

definition example_world :: world where
  "example_world =
     \<lparr>credit_table = [example_row ''k1'' False 7 ''ent-a'' ''c1'',
                      example_row ''k2'' True 8 ''ent-b'' ''c2''],
      licensed_table = [example_row ''f1'' False 7 ''ent-a'' ''c1'',
                        example_row ''f2'' False 8 ''ent-b'' ''c2'',
                        example_row ''f3'' True 7 ''ent-a'' ''c3''],
      calls = [], expiration_log = []\<rparr>"

text \<open>
  A learner credit row whose enrollment belongs to customer \<open>ent-b\<close> and whose entitlement
  belongs to customer \<open>ent-a\<close>.
\<close>

definition entitled_row :: fulfillment where
  "entitled_row =
     \<lparr>f_uuid = ''k9'', f_license_uuid = ''t9'', f_is_revoked = False,
      f_enrollment = Some (example_enrollment 8 ''ent-b'' ''c2''),
      f_entitlement_enterprise = Some ''ent-a''\<rparr>"

definition entitled_world :: world where
  "entitled_world = \<lparr>credit_table = [entitled_row], licensed_table = [], calls = [],
                     expiration_log = []\<rparr>"

text \<open>
  Two licensed enrollments whose keys coincide: user 3 in course \<open>1x\<close>, last modified at 5,
  and user 31 in course \<open>x\<close>, last modified at 9.
\<close>

definition collision_env :: env where
  "collision_env =
     (example_env [] [] [])\<lparr>course_enrollment_history := (\<lambda>w. [(3, ''1x'', 5), (31, ''x'', 9)])\<rparr>"

definition collision_rows :: "fulfillment list" where
  "collision_rows = [example_row ''g1'' False 3 ''ent-a'' ''1x'',
                     example_row ''g2'' False 31 ''ent-a'' ''x'']"

definition collision_world :: world where
  "collision_world =
     \<lparr>credit_table = [], licensed_table = collision_rows, calls = [], expiration_log = []\<rparr>"

text \<open>
  Requests of a bulk enrollment: by email, by user id, and the validated data holding a list
  of them. In \<open>pending_env\<close> every request is left pending.
\<close>

definition by_email :: "string \<Rightarrow> string \<Rightarrow> enrollment_info" where
  "by_email email course_run =
     \<lparr>info_user_id = None, info_email = Some email, info_course_run_key = course_run,
      info_license_uuid = Some ''lic'', info_transaction_id = None, info_course_mode = None\<rparr>"

definition by_user_id :: "nat \<Rightarrow> string \<Rightarrow> enrollment_info" where
  "by_user_id user_id course_run =
     \<lparr>info_user_id = Some user_id, info_email = None, info_course_run_key = course_run,
      info_license_uuid = Some ''lic'', info_transaction_id = None, info_course_mode = None\<rparr>"

definition example_data :: "enrollment_info list \<Rightarrow> validated_data" where
  "example_data infos =
     \<lparr>vd_licenses_info = None, vd_enrollments_info = Some infos, vd_discount = None,
      vd_notify = Some True\<rparr>"

definition pending_env :: env where
  "pending_env =
     (example_env [] [] [])\<lparr>enroll_subsidy_users_in_courses :=
        (\<lambda>w infos discount.
           \<lparr>successes = [],
            pending = map example_result (filter (\<lambda>info. info_email info \<noteq> None) infos),
            failures = []\<rparr>)\<rparr>"

section \<open>Calls and log lines\<close>

lemma new_calls_same [simp]: "new_calls w w = []"
  by (simp add: new_calls_def)

lemma new_calls_record_call [simp]: "new_calls w (record_call c w) = [c]"
  by (simp add: new_calls_def record_call_def)

lemma calls_record_call [simp]: "calls (record_call c w) = calls w @ [c]"
  by (simp add: record_call_def)

lemma calls_revoke [simp]: "calls (revoke kind uuid w) = calls w @ [Revoke kind uuid]"
  by (cases kind) simp_all

lemma calls_write_log [simp]: "calls (write_log l outcome w) = calls w"
  by (simp add: write_log_def)

lemma expiration_log_record_call [simp]: "expiration_log (record_call c w) = expiration_log w"
  by (simp add: record_call_def)

lemma expiration_log_revoke [simp]: "expiration_log (revoke kind uuid w) = expiration_log w"
  by (cases kind) simp_all

lemma expiration_log_write_log [simp]:
  "expiration_log (write_log l outcome w) = expiration_log w @ [(l, outcome)]"
  by (simp add: write_log_def)

section \<open>Properties of the report-type helper\<close>

lemma sort_key_eq_Nil_iff: "sort_key f xs = [] \<longleftrightarrow> xs = []"
  by (metis length_sort length_0_conv)

lemma last_sort_key_Max:
  fixes f :: "'a \<Rightarrow> 'b::linorder"
  assumes "xs \<noteq> []"
  shows "f (last (sort_key f xs)) = Max (f ` set xs)"
proof -
  let ?ys = "sort_key f xs"
  have ne: "?ys \<noteq> []" using assms by (simp add: sort_key_eq_Nil_iff)
  have srt: "sorted (map f ?ys)" by (rule sorted_sort_key)
  have lst: "f (last ?ys) = last (map f ?ys)" using ne by (simp add: last_map)
  have mem: "last ?ys \<in> set xs" using ne last_in_set [of ?ys] by simp
  have ub: "\<And>y. y \<in> f ` set xs \<Longrightarrow> y \<le> f (last ?ys)"
  proof -
    fix y assume "y \<in> f ` set xs"
    then have "y \<in> set (map f ?ys)" by simp
    then obtain i where i: "i < length (map f ?ys)" "map f ?ys ! i = y"
      by (meson in_set_conv_nth)
    have "map f ?ys ! i \<le> map f ?ys ! (length (map f ?ys) - 1)"
      using srt i(1) by (intro sorted_nth_mono) auto
    moreover have "map f ?ys ! (length (map f ?ys) - 1) = last (map f ?ys)"
      using ne by (simp add: last_conv_nth)
    ultimately show "y \<le> f (last ?ys)" using i(2) lst by simp
  qed
  show ?thesis
    by (rule sym, rule Max_eqI) (use mem ub in auto)
qed

text \<open>
  Claim C10. The helper has a value only when some data type has a code (second component)
  starting with \<open>progress\<close>. Then it returns the other data types unchanged and in input
  order, followed by one pair made of the greatest progress code, in the order of strings, and
  the label \<open>progress\<close>. With no progress-coded data type the indexing of the last element
  raises \<open>IndexError\<close>.
\<close>

theorem report_types_recent_progress:
  "((\<exists>data_type \<in> set data_types. startswith (snd data_type) ''progress'') \<longrightarrow>
     get_data_types_with_recent_progress_type data_types =
       Inr (filter (\<lambda>data_type. \<not> startswith (snd data_type) ''progress'') data_types @
            [(Max (set (map snd (filter (\<lambda>data_type. startswith (snd data_type) ''progress'')
                                  data_types))),
              ''progress'')])) \<and>
   (\<not> (\<exists>data_type \<in> set data_types. startswith (snd data_type) ''progress'') \<longrightarrow>
     get_data_types_with_recent_progress_type data_types = Inl IndexError)"
proof (intro conjI impI)
  let ?P = "\<lambda>data_type::string \<times> string. startswith (snd data_type) ''progress''"
  assume ex: "\<exists>data_type \<in> set data_types. ?P data_type"
  then have ne: "filter ?P data_types \<noteq> []" by (simp add: filter_empty_conv)
  have "snd (last (sort_key snd (filter ?P data_types))) = Max (snd ` set (filter ?P data_types))"
    using ne by (rule last_sort_key_Max)
  then show "get_data_types_with_recent_progress_type data_types =
     Inr (filter (\<lambda>data_type. \<not> ?P data_type) data_types @
          [(Max (set (map snd (filter ?P data_types))), ''progress'')])"
    using ne unfolding get_data_types_with_recent_progress_type_def Let_def
    by (simp add: sort_key_eq_Nil_iff)
next
  assume "\<not> (\<exists>data_type \<in> set data_types. startswith (snd data_type) ''progress'')"
  then show "get_data_types_with_recent_progress_type data_types = Inl IndexError"
    unfolding get_data_types_with_recent_progress_type_def Let_def
    by (simp add: filter_empty_conv sort_key_eq_Nil_iff)
qed

theorem report_types_recent_progress_witness:
  "get_data_types_with_recent_progress_type
     [(''catalog'', ''catalog''), (''progress_v3'', ''progress_v3''), (''grade'', ''grade''),
      (''progress'', ''progress''), (''progress_v2'', ''progress_v2'')] =
   Inr [(''catalog'', ''catalog''), (''grade'', ''grade''),
        (''progress_v3'', ''progress'')] \<and>
   get_data_types_with_recent_progress_type [(''catalog'', ''catalog'')] = Inl IndexError"
  using report_types_recent_progress
          [of "[(''catalog'', ''catalog''), (''progress_v3'', ''progress_v3''), (''grade'', ''grade''),
                (''progress'', ''progress''), (''progress_v2'', ''progress_v2'')]"]
        report_types_recent_progress [of "[(''catalog'', ''catalog'')]"]
  by (simp add: startswith_def)

section \<open>The steps of a bulk enrollment\<close>

lemma resolve_users_errors:
  assumes "resolve_users env w modes infos resolved emails user_id_errors =
             Inr (resolved', emails', user_id_errors')"
  shows "set user_id_errors \<subseteq> set user_id_errors' \<and> set emails \<subseteq> set emails' \<and>
         (\<forall>info \<in> set infos. \<forall>u. info_user_id info = Some u \<and> user_email_by_id env w u = None \<longrightarrow>
                                 u \<in> set user_id_errors') \<and>
         (\<forall>info \<in> set infos. \<forall>e.
            (info_user_id info = None \<and> info_email info = Some e) \<or>
            (\<exists>u. info_user_id info = Some u \<and> user_email_by_id env w u = Some e) \<longrightarrow>
            e \<in> set emails')"
  using assms
proof (induction infos arbitrary: resolved emails user_id_errors)
  case Nil
  then show ?case by simp
next
  case (Cons info infos)
  show ?case
  proof (cases "info_user_id info")
    case None
    then obtain email where e: "info_email info = Some email"
      using Cons.prems by (cases "info_email info") (simp_all add: Let_def)
    from Cons.prems None e
    have "resolve_users env w modes infos
            (resolved @ [info\<lparr>info_course_mode := dict_get modes (info_course_run_key info)\<rparr>])
            (set_add email emails) user_id_errors = Inr (resolved', emails', user_id_errors')"
      by (simp add: Let_def)
    from Cons.IH [OF this] None e show ?thesis
      by (auto simp: set_add_def split: if_splits)
  next
    case (Some user_id)
    show ?thesis
    proof (cases "user_email_by_id env w user_id")
      case None
      from Cons.prems Some None
      have "resolve_users env w modes infos
              (resolved @ [info\<lparr>info_course_mode := dict_get modes (info_course_run_key info)\<rparr>])
              emails (user_id_errors @ [user_id]) = Inr (resolved', emails', user_id_errors')"
        by (simp add: Let_def)
      from Cons.IH [OF this] Some None show ?thesis by auto
    next
      case (Some email)
      from Cons.prems \<open>info_user_id info = Some user_id\<close> Some
      have "resolve_users env w modes infos
              (resolved @ [info\<lparr>info_email := Some email,
                                info_course_mode := dict_get modes (info_course_run_key info)\<rparr>])
              (set_add email emails) user_id_errors = Inr (resolved', emails', user_id_errors')"
        by (simp add: Let_def)
      from Cons.IH [OF this] \<open>info_user_id info = Some user_id\<close> Some show ?thesis
        by (auto simp: set_add_def split: if_splits)
    qed
  qed
qed

lemma link_emails_effect:
  assumes "link_emails env emails email_errors w = (email_errors', w')"
  shows "set email_errors \<subseteq> set email_errors' \<and> calls w' = calls w @ map LinkUser emails"
  using assms
proof (induction emails arbitrary: email_errors w)
  case Nil
  then show ?case by simp
next
  case (Cons email emails)
  show ?case
  proof (cases "link_user env w email")
    case True
    with Cons.prems
    have "link_emails env emails email_errors (record_call (LinkUser email) w) = (email_errors', w')"
      by simp
    from Cons.IH [OF this] show ?thesis by simp
  next
    case False
    with Cons.prems
    have "link_emails env emails (email_errors @ [email]) (record_call (LinkUser email) w) =
            (email_errors', w')"
      by simp
    from Cons.IH [OF this] show ?thesis by simp
  qed
qed

lemma notify_course_runs_calls:
  "\<exists>cs. calls (snd (notify_course_runs notify_learners links pending_results success_results
                       course_runs w)) = calls w @ cs \<and>
        (\<forall>c \<in> set cs. \<not> is_enrollment_call c \<and> linked_email c = None)"
proof (induction course_runs arbitrary: w)
  case Nil
  then show ?case by simp
next
  case (Cons course_run course_runs)
  let ?created = "filter (\<lambda>result. r_course_run_key result = course_run \<and> r_created result)
                    pending_results @
                  filter (\<lambda>result. r_course_run_key result = course_run \<and> r_created result)
                    success_results"
  define bad where "bad = (\<exists>result \<in> set ?created. r_user result = None)"
  define users where "users = remdups (map (\<lambda>result. the (r_user result)) ?created)"
  let ?w1 = "record_call (TrackEnrollment course_run) w"
  let ?w2 = "record_call (NotifyEnrolledLearners course_run users links) ?w1"
  let ?rest = "notify_course_runs notify_learners links pending_results success_results course_runs"
  have step: "notify_course_runs notify_learners links pending_results success_results
                (course_run # course_runs) w =
              (if bad then (Inl KeyError, w)
               else if users \<noteq> [] then ?rest (if notify_learners then ?w2 else ?w1)
               else ?rest w)"
    unfolding bad_def users_def
    by (simp only: notify_course_runs.simps Let_def)
  from Cons.IH [of w] obtain cs0 where cs0: "calls (snd (?rest w)) = calls w @ cs0"
    "\<forall>c \<in> set cs0. \<not> is_enrollment_call c \<and> linked_email c = None"
    by blast
  from Cons.IH [of ?w1] obtain cs1 where cs1: "calls (snd (?rest ?w1)) = calls ?w1 @ cs1"
    "\<forall>c \<in> set cs1. \<not> is_enrollment_call c \<and> linked_email c = None"
    by blast
  from Cons.IH [of ?w2] obtain cs2 where cs2: "calls (snd (?rest ?w2)) = calls ?w2 @ cs2"
    "\<forall>c \<in> set cs2. \<not> is_enrollment_call c \<and> linked_email c = None"
    by blast
  consider (err) "bad" | (quiet) "\<not> bad" "users = []"
    | (track) "\<not> bad" "users \<noteq> []" "\<not> notify_learners"
    | (tell) "\<not> bad" "users \<noteq> []" "notify_learners"
    by blast
  then show ?case
  proof cases
    case err
    then have eq: "notify_course_runs notify_learners links pending_results success_results
                     (course_run # course_runs) w = (Inl KeyError, w)"
      unfolding step by simp
    show ?thesis unfolding eq by simp
  next
    case quiet
    then have eq: "notify_course_runs notify_learners links pending_results success_results
                     (course_run # course_runs) w = ?rest w"
      unfolding step by simp
    show ?thesis unfolding eq using cs0 by blast
  next
    case track
    then have eq: "notify_course_runs notify_learners links pending_results success_results
                     (course_run # course_runs) w = ?rest ?w1"
      unfolding step by simp
    show ?thesis
      unfolding eq using cs1 by (intro exI [of _ "TrackEnrollment course_run # cs1"]) simp
  next
    case tell
    then have eq: "notify_course_runs notify_learners links pending_results success_results
                     (course_run # course_runs) w = ?rest ?w2"
      unfolding step by simp
    show ?thesis
      unfolding eq using cs2
      by (intro exI [of _ "TrackEnrollment course_run #
                           NotifyEnrolledLearners course_run users links # cs2"]) simp
  qed
qed

lemma remove_bad_requests_clean:
  "\<forall>info \<in> set (remove_bad_requests email_errors user_id_errors infos).
     (\<forall>email. info_email info = Some email \<longrightarrow> email \<notin> set email_errors) \<and>
     (\<forall>user_id. info_user_id info = Some user_id \<longrightarrow> user_id \<notin> set user_id_errors)"
  by (auto simp: remove_bad_requests_def)

section \<open>The status of a bulk enrollment\<close>

lemma enroll_learners_in_courses_response:
  assumes run: "enroll_learners_in_courses env w (Valid vd) = (Inr resp, w')"
  shows "\<exists>infos resolved emails user_id_errors email_errors w1 results.
           requested_infos vd = Some infos \<and>
           resolve_users env w
             (map (\<lambda>course_run. (course_run, get_best_mode_from_course_key env w course_run))
                (dict_keys (map (\<lambda>info. (info_course_run_key info, ())) infos)))
             infos [] [] [] = Inr (resolved, emails, user_id_errors) \<and>
           link_emails env (iteration_order env emails)
             (validate_emails env w (iteration_order env emails)) w = (email_errors, w1) \<and>
           results = enroll_subsidy_users_in_courses env w1
                       (remove_bad_requests email_errors user_id_errors resolved)
                       (case vd_discount vd of None \<Rightarrow> 100 | Some d \<Rightarrow> d) \<and>
           notify_course_runs (vd_notify vd = Some True)
             (collect_activation_links (successes results @ pending results) [])
             (pending results) (successes results)
             (dict_keys (map (\<lambda>info. (info_course_run_key info, ())) infos))
             (record_call (EnrollSubsidyUsers
                             (remove_bad_requests email_errors user_id_errors resolved)
                             (case vd_discount vd of None \<Rightarrow> 100 | Some d \<Rightarrow> d)) w1) =
             (Inr (), w') \<and>
           resp = Response (bulk_status (failures results) (pending results) email_errors
                              user_id_errors)
                    (BulkResults
                       \<lparr>successes = map strip_user (successes results),
                        pending = map strip_user (pending results),
                        failures = failures results,
                        invalid_user_ids =
                          (if user_id_errors \<noteq> [] then Some user_id_errors else None),
                        invalid_email_addresses =
                          (if email_errors \<noteq> [] then Some email_errors else None)\<rparr>)"
proof -
  from run obtain infos where i: "requested_infos vd = Some infos"
    by (auto simp: enroll_learners_in_courses_def split: option.splits)
  let ?runs = "dict_keys (map (\<lambda>info. (info_course_run_key info, ())) infos)"
  let ?modes = "map (\<lambda>course_run. (course_run, get_best_mode_from_course_key env w course_run)) ?runs"
  let ?discount = "case vd_discount vd of None \<Rightarrow> 100 | Some d \<Rightarrow> d"
  from run i obtain resolved emails user_id_errors where
    r: "resolve_users env w ?modes infos [] [] [] = Inr (resolved, emails, user_id_errors)"
    by (auto simp: enroll_learners_in_courses_def Let_def split: sum.splits)
  obtain email_errors w1 where
    l: "link_emails env (iteration_order env emails)
          (validate_emails env w (iteration_order env emails)) w = (email_errors, w1)"
    by (cases "link_emails env (iteration_order env emails)
                 (validate_emails env w (iteration_order env emails)) w")
  let ?given = "remove_bad_requests email_errors user_id_errors resolved"
  let ?results = "enroll_subsidy_users_in_courses env w1 ?given ?discount"
  obtain out w3 where
    n: "notify_course_runs (vd_notify vd = Some True)
          (collect_activation_links (successes ?results @ pending ?results) [])
          (pending ?results) (successes ?results) ?runs
          (record_call (EnrollSubsidyUsers ?given ?discount) w1) = (out, w3)"
    by (cases "notify_course_runs (vd_notify vd = Some True)
          (collect_activation_links (successes ?results @ pending ?results) [])
          (pending ?results) (successes ?results) ?runs
          (record_call (EnrollSubsidyUsers ?given ?discount) w1)")
  from run i r l n have fin: "out = Inr () \<and> w3 = w' \<and>
      resp = Response (bulk_status (failures ?results) (pending ?results) email_errors
                         user_id_errors)
               (BulkResults
                  \<lparr>successes = map strip_user (successes ?results),
                   pending = map strip_user (pending ?results),
                   failures = failures ?results,
                   invalid_user_ids =
                     (if user_id_errors \<noteq> [] then Some user_id_errors else None),
                   invalid_email_addresses =
                     (if email_errors \<noteq> [] then Some email_errors else None)\<rparr>)"
    by (auto simp: enroll_learners_in_courses_def Let_def split: sum.splits)
  show ?thesis
    using i r l n fin by blast
qed

lemma resolve_users_total:
  assumes "\<forall>info \<in> set infos. info_user_id info \<noteq> None \<or> info_email info \<noteq> None"
  shows "\<exists>r. resolve_users env w modes infos resolved emails user_id_errors = Inr r"
  using assms
proof (induction infos arbitrary: resolved emails user_id_errors)
  case Nil
  then show ?case by simp
next
  case (Cons info infos)
  then show ?case
    by (cases "info_user_id info"; cases "info_email info";
        cases "user_email_by_id env w (the (info_user_id info))")
       (simp_all add: Let_def)
qed

lemma notify_course_runs_total:
  assumes "\<forall>result \<in> set pending_results \<union> set success_results.
             r_created result \<longrightarrow> r_user result \<noteq> None"
  shows "\<exists>w'. notify_course_runs notify_learners links pending_results success_results
                 course_runs w = (Inr (), w')"
  using assms
proof (induction course_runs arbitrary: w)
  case Nil
  then show ?case by simp
next
  case (Cons course_run course_runs)
  have none: "\<not> (\<exists>result \<in> set (filter (\<lambda>result. r_course_run_key result = course_run \<and>
                                                   r_created result) pending_results @
                                   filter (\<lambda>result. r_course_run_key result = course_run \<and>
                                                   r_created result) success_results).
                    r_user result = None)"
    using Cons.prems by auto
  show ?case
    using none Cons.IH [OF Cons.prems]
    by (simp add: Let_def del: set_append)
qed

lemma enroll_learners_in_courses_total:
  assumes i: "requested_infos vd = Some infos"
    and ids: "\<forall>info \<in> set infos. info_user_id info \<noteq> None \<or> info_email info \<noteq> None"
    and users: "\<forall>w1 given d.
                  \<forall>result \<in> set (pending (enroll_subsidy_users_in_courses env w1 given d)) \<union>
                             set (successes (enroll_subsidy_users_in_courses env w1 given d)).
                    r_created result \<longrightarrow> r_user result \<noteq> None"
  shows "\<exists>resp w'. enroll_learners_in_courses env w (Valid vd) = (Inr resp, w')"
proof -
  let ?runs = "dict_keys (map (\<lambda>info. (info_course_run_key info, ())) infos)"
  let ?modes = "map (\<lambda>course_run. (course_run, get_best_mode_from_course_key env w course_run)) ?runs"
  let ?discount = "case vd_discount vd of None \<Rightarrow> 100 | Some d \<Rightarrow> d"
  from resolve_users_total [OF ids, of env w ?modes "[]" "[]" "[]"]
  obtain resolved emails user_id_errors where
    r: "resolve_users env w ?modes infos [] [] [] = Inr (resolved, emails, user_id_errors)"
    by (metis prod_cases3)
  obtain email_errors w1 where
    l: "link_emails env (iteration_order env emails)
          (validate_emails env w (iteration_order env emails)) w = (email_errors, w1)"
    by (cases "link_emails env (iteration_order env emails)
                 (validate_emails env w (iteration_order env emails)) w")
  let ?given = "remove_bad_requests email_errors user_id_errors resolved"
  let ?results = "enroll_subsidy_users_in_courses env w1 ?given ?discount"
  have u: "\<forall>result \<in> set (pending ?results) \<union> set (successes ?results).
             r_created result \<longrightarrow> r_user result \<noteq> None"
    using users by blast
  from notify_course_runs_total [OF u]
  obtain w3 where
    n: "notify_course_runs (vd_notify vd = Some True)
          (collect_activation_links (successes ?results @ pending ?results) [])
          (pending ?results) (successes ?results) ?runs
          (record_call (EnrollSubsidyUsers ?given ?discount) w1) = (Inr (), w3)"
    by blast
  show ?thesis
    using i r l n by (simp add: enroll_learners_in_courses_def Let_def)
qed

lemma resolve_users_user_id_errors:
  assumes "resolve_users env w modes infos resolved emails user_id_errors =
             Inr (resolved', emails', user_id_errors')"
  shows "user_id_errors' = user_id_errors @ unresolved_user_ids env w infos"
  using assms
proof (induction infos arbitrary: resolved emails user_id_errors)
  case Nil
  then show ?case by (simp add: unresolved_user_ids_def)
next
  case (Cons info infos)
  show ?case
  proof (cases "info_user_id info")
    case None
    then obtain email where e: "info_email info = Some email"
      using Cons.prems by (cases "info_email info") (simp_all add: Let_def)
    from Cons.prems None e
    have "resolve_users env w modes infos
            (resolved @ [info\<lparr>info_course_mode := dict_get modes (info_course_run_key info)\<rparr>])
            (set_add email emails) user_id_errors = Inr (resolved', emails', user_id_errors')"
      by (simp add: Let_def)
    from Cons.IH [OF this] None show ?thesis
      by (simp add: unresolved_user_ids_def)
  next
    case (Some user_id)
    show ?thesis
    proof (cases "user_email_by_id env w user_id")
      case None
      from Cons.prems Some None
      have "resolve_users env w modes infos
              (resolved @ [info\<lparr>info_course_mode := dict_get modes (info_course_run_key info)\<rparr>])
              emails (user_id_errors @ [user_id]) = Inr (resolved', emails', user_id_errors')"
        by (simp add: Let_def)
      from Cons.IH [OF this] Some None show ?thesis
        by (simp add: unresolved_user_ids_def)
    next
      case (Some email)
      from Cons.prems \<open>info_user_id info = Some user_id\<close> Some
      have "resolve_users env w modes infos
              (resolved @ [info\<lparr>info_email := Some email,
                                info_course_mode := dict_get modes (info_course_run_key info)\<rparr>])
              (set_add email emails) user_id_errors = Inr (resolved', emails', user_id_errors')"
        by (simp add: Let_def)
      from Cons.IH [OF this] \<open>info_user_id info = Some user_id\<close> Some show ?thesis
        by (simp add: unresolved_user_ids_def)
    qed
  qed
qed

lemma bulk_enrollment_calls:
  assumes l: "link_emails env emails email_errors0 w = (email_errors, w1)"
    and n: "notify_course_runs notify_learners links pending_results success_results course_runs
              (record_call (EnrollSubsidyUsers given d) w1) = (Inr (), w')"
  shows "filter is_enrollment_call (new_calls w w') = [EnrollSubsidyUsers given d]"
proof -
  from link_emails_effect [OF l]
  have linked: "calls w1 = calls w @ map LinkUser emails" by simp
  from notify_course_runs_calls
         [of notify_learners links pending_results success_results course_runs
             "record_call (EnrollSubsidyUsers given d) w1"]
  obtain cs where cs: "calls w' = calls (record_call (EnrollSubsidyUsers given d) w1) @ cs"
    and quiet: "\<forall>c \<in> set cs. \<not> is_enrollment_call c \<and> linked_email c = None"
    using n by auto
  have new: "new_calls w w' = map LinkUser emails @ [EnrollSubsidyUsers given d] @ cs"
    by (simp add: new_calls_def cs linked)
  have "filter is_enrollment_call (map LinkUser emails) = []"
    by (simp add: filter_empty_conv)
  moreover have "filter is_enrollment_call cs = []"
    using quiet by (simp add: filter_empty_conv)
  ultimately show ?thesis by (simp add: new)
qed

text \<open>
  Claim C1. A bulk enrollment that answers from its results (the serializer accepted the
  request and no exception left the view) answers from what its steps produced:
  \<^item> the user id errors of the first loop, which are the user ids of the requests for which
    no user exists;
  \<^item> the email errors of the validation and linking loops;
  \<^item> the results that the enrollment collaborator returns for the requests left once those
    with such a user id or email are removed, in the one call made to it.

  The body carries the successes, the pending enrollments and the failures of these results
  and the two error lists. The status is 409 when the results hold a failure or either
  error list is not empty, even if there are successes; else 202 when the results hold a
  pending enrollment; else 201. The view does answer so whenever the request holds a list of
  requests that each carry a user id or an email, and the enrollment collaborator gives
  every created result its user.
\<close>

theorem bulk_enrollment_status:
  "(enroll_learners_in_courses env w (Valid vd) = (Inr resp, w') \<longrightarrow>
      (\<exists>infos resolved emails user_id_errors email_errors w1 results.
         requested_infos vd = Some infos \<and>
         resolve_users env w
           (map (\<lambda>course_run. (course_run, get_best_mode_from_course_key env w course_run))
              (dict_keys (map (\<lambda>info. (info_course_run_key info, ())) infos)))
           infos [] [] [] = Inr (resolved, emails, user_id_errors) \<and>
         user_id_errors = unresolved_user_ids env w infos \<and>
         link_emails env (iteration_order env emails)
           (validate_emails env w (iteration_order env emails)) w = (email_errors, w1) \<and>
         results = enroll_subsidy_users_in_courses env w1
                     (remove_bad_requests email_errors user_id_errors resolved)
                     (case vd_discount vd of None \<Rightarrow> 100 | Some d \<Rightarrow> d) \<and>
         filter is_enrollment_call (new_calls w w') =
           [EnrollSubsidyUsers (remove_bad_requests email_errors user_id_errors resolved)
              (case vd_discount vd of None \<Rightarrow> 100 | Some d \<Rightarrow> d)] \<and>
         data resp =
           BulkResults
             \<lparr>successes = map strip_user (successes results),
              pending = map strip_user (pending results),
              failures = failures results,
              invalid_user_ids = (if user_id_errors \<noteq> [] then Some user_id_errors else None),
              invalid_email_addresses =
                (if email_errors \<noteq> [] then Some email_errors else None)\<rparr> \<and>
         status resp =
           (if failures results \<noteq> [] \<or> email_errors \<noteq> [] \<or> user_id_errors \<noteq> [] then 409
            else if pending results \<noteq> [] then 202
            else 201))) \<and>
   (requested_infos vd = Some infos \<and>
    (\<forall>info \<in> set infos. info_user_id info \<noteq> None \<or> info_email info \<noteq> None) \<and>
    (\<forall>w1 given d.
       \<forall>result \<in> set (pending (enroll_subsidy_users_in_courses env w1 given d)) \<union>
                  set (successes (enroll_subsidy_users_in_courses env w1 given d)).
         r_created result \<longrightarrow> r_user result \<noteq> None) \<longrightarrow>
      (\<exists>resp w'. enroll_learners_in_courses env w (Valid vd) = (Inr resp, w')))"
proof (intro conjI impI)
  assume "enroll_learners_in_courses env w (Valid vd) = (Inr resp, w')"
  from enroll_learners_in_courses_response [OF this]
  obtain infos resolved emails user_id_errors email_errors w1
    and results :: enrollment_results where
    i: "requested_infos vd = Some infos"
    and r: "resolve_users env w
             (map (\<lambda>course_run. (course_run, get_best_mode_from_course_key env w course_run))
                (dict_keys (map (\<lambda>info. (info_course_run_key info, ())) infos)))
             infos [] [] [] = Inr (resolved, emails, user_id_errors)"
    and l: "link_emails env (iteration_order env emails)
             (validate_emails env w (iteration_order env emails)) w = (email_errors, w1)"
    and res: "results = enroll_subsidy_users_in_courses env w1
                       (remove_bad_requests email_errors user_id_errors resolved)
                       (case vd_discount vd of None \<Rightarrow> 100 | Some d \<Rightarrow> d)"
    and n: "notify_course_runs (vd_notify vd = Some True)
             (collect_activation_links (successes results @ pending results) [])
             (pending results) (successes results)
             (dict_keys (map (\<lambda>info. (info_course_run_key info, ())) infos))
             (record_call (EnrollSubsidyUsers
                             (remove_bad_requests email_errors user_id_errors resolved)
                             (case vd_discount vd of None \<Rightarrow> 100 | Some d \<Rightarrow> d)) w1) =
             (Inr (), w')"
    and resp: "resp = Response (bulk_status (failures results) (pending results) email_errors
                              user_id_errors)
                    (BulkResults
                       \<lparr>successes = map strip_user (successes results),
                        pending = map strip_user (pending results),
                        failures = failures results,
                        invalid_user_ids =
                          (if user_id_errors \<noteq> [] then Some user_id_errors else None),
                        invalid_email_addresses =
                          (if email_errors \<noteq> [] then Some email_errors else None)\<rparr>)"
    by blast
  have u: "user_id_errors = unresolved_user_ids env w infos"
    using resolve_users_user_id_errors [OF r] by simp
  have once: "filter is_enrollment_call (new_calls w w') =
           [EnrollSubsidyUsers (remove_bad_requests email_errors user_id_errors resolved)
              (case vd_discount vd of None \<Rightarrow> 100 | Some d \<Rightarrow> d)]"
    by (rule bulk_enrollment_calls [OF l n])
  have body: "data resp =
           BulkResults
             \<lparr>successes = map strip_user (successes results),
              pending = map strip_user (pending results),
              failures = failures results,
              invalid_user_ids = (if user_id_errors \<noteq> [] then Some user_id_errors else None),
              invalid_email_addresses =
                (if email_errors \<noteq> [] then Some email_errors else None)\<rparr>"
    by (simp add: resp Response_def)
  have st: "status resp =
           (if failures results \<noteq> [] \<or> email_errors \<noteq> [] \<or> user_id_errors \<noteq> [] then 409
            else if pending results \<noteq> [] then 202
            else 201)"
    by (simp add: resp Response_def bulk_status_def)
  show "\<exists>infos resolved emails user_id_errors email_errors w1 results.
         requested_infos vd = Some infos \<and>
         resolve_users env w
           (map (\<lambda>course_run. (course_run, get_best_mode_from_course_key env w course_run))
              (dict_keys (map (\<lambda>info. (info_course_run_key info, ())) infos)))
           infos [] [] [] = Inr (resolved, emails, user_id_errors) \<and>
         user_id_errors = unresolved_user_ids env w infos \<and>
         link_emails env (iteration_order env emails)
           (validate_emails env w (iteration_order env emails)) w = (email_errors, w1) \<and>
         results = enroll_subsidy_users_in_courses env w1
                     (remove_bad_requests email_errors user_id_errors resolved)
                     (case vd_discount vd of None \<Rightarrow> 100 | Some d \<Rightarrow> d) \<and>
         filter is_enrollment_call (new_calls w w') =
           [EnrollSubsidyUsers (remove_bad_requests email_errors user_id_errors resolved)
              (case vd_discount vd of None \<Rightarrow> 100 | Some d \<Rightarrow> d)] \<and>
         data resp =
           BulkResults
             \<lparr>successes = map strip_user (successes results),
              pending = map strip_user (pending results),
              failures = failures results,
              invalid_user_ids = (if user_id_errors \<noteq> [] then Some user_id_errors else None),
              invalid_email_addresses =
                (if email_errors \<noteq> [] then Some email_errors else None)\<rparr> \<and>
         status resp =
           (if failures results \<noteq> [] \<or> email_errors \<noteq> [] \<or> user_id_errors \<noteq> [] then 409
            else if pending results \<noteq> [] then 202
            else 201)"
    using i r u l res once body st
    by (intro exI [of _ infos] exI [of _ resolved] exI [of _ emails] exI [of _ user_id_errors]
          exI [of _ email_errors] exI [of _ w1] exI [of _ results] conjI)
next
  assume a: "requested_infos vd = Some infos \<and>
    (\<forall>info \<in> set infos. info_user_id info \<noteq> None \<or> info_email info \<noteq> None) \<and>
    (\<forall>w1 given d.
       \<forall>result \<in> set (pending (enroll_subsidy_users_in_courses env w1 given d)) \<union>
                  set (successes (enroll_subsidy_users_in_courses env w1 given d)).
         r_created result \<longrightarrow> r_user result \<noteq> None)"
  show "\<exists>resp w'. enroll_learners_in_courses env w (Valid vd) = (Inr resp, w')"
    by (rule enroll_learners_in_courses_total [where infos = infos]) (use a in blast)+
qed

lemmas bulk_eval =
  enroll_learners_in_courses_def requested_infos_def example_data_def
  by_email_def by_user_id_def dict_keys_def dict_get_def set_add_def example_env_def
  validate_emails_def remove_bad_requests_def example_result_def bulk_status_def
  strip_user_def record_call_def Response_def Let_def dict_set_def pending_env_def

theorem bulk_enrollment_status_witness:
  "(\<exists>resp w'.
      enroll_learners_in_courses (example_env [] [] []) example_world
        (Valid (example_data [by_email ''a@x'' ''c1'', by_user_id 8 ''c2''])) = (Inr resp, w') \<and>
      status resp = 201) \<and>
   (\<exists>resp w'.
      enroll_learners_in_courses pending_env example_world
        (Valid (example_data [by_email ''a@x'' ''c1'', by_user_id 8 ''c2''])) = (Inr resp, w') \<and>
      status resp = 202) \<and>
   (\<exists>resp w' b.
      enroll_learners_in_courses (example_env [] [] []) example_world
        (Valid (example_data [by_email ''a@x'' ''c1'', by_user_id 9 ''c2''])) = (Inr resp, w') \<and>
      data resp = BulkResults b \<and> successes b \<noteq> [] \<and> invalid_user_ids b = Some [9] \<and>
      status resp = 409)"
proof -
  let ?env = "example_env [] [] []"
  let ?infos = "[by_email ''a@x'' ''c1'', by_user_id 8 ''c2'']"
  let ?vd = "example_data ?infos"
  let ?infos9 = "[by_email ''a@x'' ''c1'', by_user_id 9 ''c2'']"
  let ?vd9 = "example_data ?infos9"
  have i: "requested_infos ?vd = Some ?infos"
    by (simp add: requested_infos_def example_data_def)
  have ids: "\<forall>info \<in> set ?infos. info_user_id info \<noteq> None \<or> info_email info \<noteq> None"
    by (simp add: by_email_def by_user_id_def)
  have users: "\<forall>w1 given d.
       \<forall>result \<in> set (pending (enroll_subsidy_users_in_courses ?env w1 given d)) \<union>
                  set (successes (enroll_subsidy_users_in_courses ?env w1 given d)).
         r_created result \<longrightarrow> r_user result \<noteq> None"
    by (simp add: example_env_def example_result_def)
  from bulk_enrollment_status [where env = ?env and w = example_world and vd = ?vd
                                 and infos = ?infos] i ids users
  obtain resp w' where
    run: "enroll_learners_in_courses ?env example_world (Valid ?vd) = (Inr resp, w')"
    by blast
  have "case fst (enroll_learners_in_courses ?env example_world (Valid ?vd)) of
          Inl e \<Rightarrow> False | Inr resp \<Rightarrow> status resp = 201"
    by (simp add: bulk_eval)
  then have "status resp = 201" using run by simp
  then have first: "\<exists>resp w'.
      enroll_learners_in_courses ?env example_world (Valid ?vd) = (Inr resp, w') \<and>
      status resp = 201"
    using run by blast
  have pusers: "\<forall>w1 given d.
       \<forall>result \<in> set (pending (enroll_subsidy_users_in_courses pending_env w1 given d)) \<union>
                  set (successes (enroll_subsidy_users_in_courses pending_env w1 given d)).
         r_created result \<longrightarrow> r_user result \<noteq> None"
    by (simp add: pending_env_def example_env_def example_result_def)
  from bulk_enrollment_status [where env = pending_env and w = example_world and vd = ?vd
                                 and infos = ?infos] i ids pusers
  obtain presp pw' where
    prun: "enroll_learners_in_courses pending_env example_world (Valid ?vd) = (Inr presp, pw')"
    by blast
  have "case fst (enroll_learners_in_courses pending_env example_world (Valid ?vd)) of
          Inl e \<Rightarrow> False | Inr resp \<Rightarrow> status resp = 202"
    by (simp add: bulk_eval)
  then have "status presp = 202" using prun by simp
  then have second: "\<exists>resp w'.
      enroll_learners_in_courses pending_env example_world (Valid ?vd) = (Inr resp, w') \<and>
      status resp = 202"
    using prun by blast
  have i9: "requested_infos ?vd9 = Some ?infos9"
    by (simp add: requested_infos_def example_data_def)
  have ids9: "\<forall>info \<in> set ?infos9. info_user_id info \<noteq> None \<or> info_email info \<noteq> None"
    by (simp add: by_email_def by_user_id_def)
  from bulk_enrollment_status [where env = ?env and w = example_world and vd = ?vd9
                                 and infos = ?infos9] i9 ids9 users
  obtain resp9 w9 where
    run9: "enroll_learners_in_courses ?env example_world (Valid ?vd9) = (Inr resp9, w9)"
    by blast
  from bulk_enrollment_status [where env = ?env and w = example_world and vd = ?vd9
                                 and resp = resp9 and w' = w9] run9
  obtain infos user_id_errors email_errors and results :: enrollment_results where
    i': "requested_infos ?vd9 = Some infos"
    and u: "user_id_errors = unresolved_user_ids ?env example_world infos"
    and body: "data resp9 =
           BulkResults
             \<lparr>successes = map strip_user (successes results),
              pending = map strip_user (pending results),
              failures = failures results,
              invalid_user_ids = (if user_id_errors \<noteq> [] then Some user_id_errors else None),
              invalid_email_addresses =
                (if email_errors \<noteq> [] then Some email_errors else None)\<rparr>"
    and st: "status resp9 =
           (if failures results \<noteq> [] \<or> email_errors \<noteq> [] \<or> user_id_errors \<noteq> [] then 409
            else if pending results \<noteq> [] then 202
            else 201)"
    by blast
  have "infos = ?infos9" using i' i9 by simp
  then have u9: "user_id_errors = [9]"
    using u by (simp add: unresolved_user_ids_def by_email_def by_user_id_def example_env_def)
  have st9: "status resp9 = 409" using st u9 by simp
  have "case fst (enroll_learners_in_courses ?env example_world (Valid ?vd9)) of
          Inl e \<Rightarrow> False
        | Inr resp \<Rightarrow> (case data resp of BulkResults b \<Rightarrow> successes b \<noteq> [] | _ \<Rightarrow> False)"
    by (simp add: bulk_eval)
  then have some: "successes results \<noteq> []" using run9 body by simp
  let ?b = "\<lparr>successes = map strip_user (successes results),
             pending = map strip_user (pending results),
             failures = failures results,
             invalid_user_ids = (if user_id_errors \<noteq> [] then Some user_id_errors else None),
             invalid_email_addresses =
               (if email_errors \<noteq> [] then Some email_errors else None)\<rparr>"
  have b1: "successes ?b \<noteq> []" using some by simp
  have b2: "invalid_user_ids ?b = Some [9]" using u9 by simp
  have third: "\<exists>resp w' b.
      enroll_learners_in_courses ?env example_world (Valid ?vd9) = (Inr resp, w') \<and>
      data resp = BulkResults b \<and> successes b \<noteq> [] \<and> invalid_user_ids b = Some [9] \<and>
      status resp = 409"
    using run9 body b1 b2 st9
    by (intro exI [of _ resp9] exI [of _ w9] exI [of _ ?b] conjI)
  show ?thesis using first second third by (intro conjI)
qed

section \<open>Invalid identities in a bulk enrollment\<close>

lemma listed_simps [simp]: "listed (Some xs) = xs" "listed None = []"
  by (simp_all add: listed_def)

lemma listed_when_nonempty [simp]: "listed (if xs \<noteq> [] then Some xs else None) = xs"
  by simp

lemma r_email_strip_user [simp]: "r_email (strip_user result) = r_email result"
  by (simp add: strip_user_def)

text \<open>
  Claim C7. Take a bulk enrollment that answers from its results, with the emails iterated
  in some order of the set. The enrollment collaborator is called once, and no request it is
  given carries an email reported in \<open>invalid_email_addresses\<close> or a user id reported in
  \<open>invalid_user_ids\<close>. A user id of the request for which no user exists is reported in
  \<open>invalid_user_ids\<close>, an email of the request (given, or found for a user id) that the
  validation rejects is reported in \<open>invalid_email_addresses\<close>, and in both cases the
  status is 409. When the collaborator only returns results for emails of the requests it
  was given, no success and no pending result carries a reported email.
\<close>

theorem invalid_identities_are_excluded:
  assumes run: "enroll_learners_in_courses env w (Valid vd) = (Inr resp, w')"
    and i: "requested_infos vd = Some infos"
    and order: "\<forall>xs. set (iteration_order env xs) = set xs"
  shows "\<exists>b given d.
     data resp = BulkResults b \<and>
     filter is_enrollment_call (new_calls w w') = [EnrollSubsidyUsers given d] \<and>
     (\<forall>info \<in> set given.
        (\<forall>email. info_email info = Some email \<longrightarrow>
                  email \<notin> set (listed (invalid_email_addresses b))) \<and>
        (\<forall>user_id. info_user_id info = Some user_id \<longrightarrow>
                    user_id \<notin> set (listed (invalid_user_ids b)))) \<and>
     (\<forall>info \<in> set infos. \<forall>u.
        info_user_id info = Some u \<and> user_email_by_id env w u = None \<longrightarrow>
        u \<in> set (listed (invalid_user_ids b)) \<and> status resp = 409) \<and>
     (\<forall>info \<in> set infos. \<forall>e.
        ((info_user_id info = None \<and> info_email info = Some e) \<or>
         (\<exists>u. info_user_id info = Some u \<and> user_email_by_id env w u = Some e)) \<and>
        \<not> validate_email_to_link env w e \<longrightarrow>
        e \<in> set (listed (invalid_email_addresses b)) \<and> status resp = 409) \<and>
     ((\<forall>w1 given d.
         \<forall>result \<in> set (successes (enroll_subsidy_users_in_courses env w1 given d)) \<union>
                    set (pending (enroll_subsidy_users_in_courses env w1 given d)).
           \<exists>info \<in> set given. info_email info = Some (r_email result)) \<longrightarrow>
      (\<forall>result \<in> set (successes b) \<union> set (pending b).
         r_email result \<notin> set (listed (invalid_email_addresses b))))"
proof -
  from enroll_learners_in_courses_response [OF run]
  obtain infos0 resolved emails user_id_errors email_errors w1
    and results :: enrollment_results where
    i0: "requested_infos vd = Some infos0"
    and r: "resolve_users env w
             (map (\<lambda>course_run. (course_run, get_best_mode_from_course_key env w course_run))
                (dict_keys (map (\<lambda>info. (info_course_run_key info, ())) infos0)))
             infos0 [] [] [] = Inr (resolved, emails, user_id_errors)"
    and l: "link_emails env (iteration_order env emails)
             (validate_emails env w (iteration_order env emails)) w = (email_errors, w1)"
    and res: "results = enroll_subsidy_users_in_courses env w1
                       (remove_bad_requests email_errors user_id_errors resolved)
                       (case vd_discount vd of None \<Rightarrow> 100 | Some d \<Rightarrow> d)"
    and n: "notify_course_runs (vd_notify vd = Some True)
             (collect_activation_links (successes results @ pending results) [])
             (pending results) (successes results)
             (dict_keys (map (\<lambda>info. (info_course_run_key info, ())) infos0))
             (record_call (EnrollSubsidyUsers
                             (remove_bad_requests email_errors user_id_errors resolved)
                             (case vd_discount vd of None \<Rightarrow> 100 | Some d \<Rightarrow> d)) w1) =
             (Inr (), w')"
    and resp: "resp = Response (bulk_status (failures results) (pending results) email_errors
                              user_id_errors)
                    (BulkResults
                       \<lparr>successes = map strip_user (successes results),
                        pending = map strip_user (pending results),
                        failures = failures results,
                        invalid_user_ids =
                          (if user_id_errors \<noteq> [] then Some user_id_errors else None),
                        invalid_email_addresses =
                          (if email_errors \<noteq> [] then Some email_errors else None)\<rparr>)"
    by blast
  have same: "infos0 = infos" using i i0 by simp
  let ?given = "remove_bad_requests email_errors user_id_errors resolved"
  let ?d = "case vd_discount vd of None \<Rightarrow> 100 | Some d \<Rightarrow> d"
  let ?b = "\<lparr>successes = map strip_user (successes results),
             pending = map strip_user (pending results),
             failures = failures results,
             invalid_user_ids = (if user_id_errors \<noteq> [] then Some user_id_errors else None),
             invalid_email_addresses =
               (if email_errors \<noteq> [] then Some email_errors else None)\<rparr>"
  have body: "data resp = BulkResults ?b" by (simp add: resp Response_def)
  have st: "status resp = bulk_status (failures results) (pending results) email_errors
                            user_id_errors"
    by (simp add: resp Response_def)
  from link_emails_effect [OF l]
  have sub: "set (validate_emails env w (iteration_order env emails)) \<subseteq> set email_errors"
    and linked: "calls w1 = calls w @ map LinkUser (iteration_order env emails)"
    by simp_all
  from notify_course_runs_calls
         [of "vd_notify vd = Some True"
             "collect_activation_links (successes results @ pending results) []"
             "pending results" "successes results"
             "dict_keys (map (\<lambda>info. (info_course_run_key info, ())) infos0)"
             "record_call (EnrollSubsidyUsers ?given ?d) w1"]
  obtain cs where cs: "calls w' = calls (record_call (EnrollSubsidyUsers ?given ?d) w1) @ cs"
    and quiet: "\<forall>c \<in> set cs. \<not> is_enrollment_call c \<and> linked_email c = None"
    using n by auto
  have new: "new_calls w w' =
               map LinkUser (iteration_order env emails) @ [EnrollSubsidyUsers ?given ?d] @ cs"
    by (simp add: new_calls_def cs linked)
  have "filter is_enrollment_call (map LinkUser (iteration_order env emails)) = []"
    by (simp add: filter_empty_conv)
  moreover have "filter is_enrollment_call cs = []"
    using quiet by (simp add: filter_empty_conv)
  ultimately have once: "filter is_enrollment_call (new_calls w w') =
                           [EnrollSubsidyUsers ?given ?d]"
    by (simp add: new)
  have clean: "\<forall>info \<in> set ?given.
        (\<forall>email. info_email info = Some email \<longrightarrow>
                  email \<notin> set (listed (invalid_email_addresses ?b))) \<and>
        (\<forall>user_id. info_user_id info = Some user_id \<longrightarrow>
                    user_id \<notin> set (listed (invalid_user_ids ?b)))"
    using remove_bad_requests_clean [of email_errors user_id_errors resolved] by simp
  note facts = resolve_users_errors [OF r, unfolded same]
  have ids: "\<forall>info \<in> set infos. \<forall>u.
        info_user_id info = Some u \<and> user_email_by_id env w u = None \<longrightarrow>
        u \<in> set (listed (invalid_user_ids ?b)) \<and> status resp = 409"
  proof (intro ballI allI impI)
    fix info u
    assume "info \<in> set infos" and "info_user_id info = Some u \<and> user_email_by_id env w u = None"
    then have "u \<in> set user_id_errors" using facts by blast
    moreover from this have "user_id_errors \<noteq> []" by auto
    ultimately show "u \<in> set (listed (invalid_user_ids ?b)) \<and> status resp = 409"
      by (simp add: st bulk_status_def)
  qed
  have mails: "\<forall>info \<in> set infos. \<forall>e.
        ((info_user_id info = None \<and> info_email info = Some e) \<or>
         (\<exists>u. info_user_id info = Some u \<and> user_email_by_id env w u = Some e)) \<and>
        \<not> validate_email_to_link env w e \<longrightarrow>
        e \<in> set (listed (invalid_email_addresses ?b)) \<and> status resp = 409"
  proof (intro ballI allI impI)
    fix info e
    assume "info \<in> set infos"
      and a: "((info_user_id info = None \<and> info_email info = Some e) \<or>
              (\<exists>u. info_user_id info = Some u \<and> user_email_by_id env w u = Some e)) \<and>
             \<not> validate_email_to_link env w e"
    then have "e \<in> set emails" using facts by blast
    then have "e \<in> set (iteration_order env emails)" using order by simp
    then have "e \<in> set (validate_emails env w (iteration_order env emails))"
      using a by (simp add: validate_emails_def)
    then have "e \<in> set email_errors" using sub by blast
    moreover from this have "email_errors \<noteq> []" by auto
    ultimately show "e \<in> set (listed (invalid_email_addresses ?b)) \<and> status resp = 409"
      by (simp add: st bulk_status_def)
  qed
  have echo: "(\<forall>w1 given d.
         \<forall>result \<in> set (successes (enroll_subsidy_users_in_courses env w1 given d)) \<union>
                    set (pending (enroll_subsidy_users_in_courses env w1 given d)).
           \<exists>info \<in> set given. info_email info = Some (r_email result)) \<longrightarrow>
      (\<forall>result \<in> set (successes ?b) \<union> set (pending ?b).
         r_email result \<notin> set (listed (invalid_email_addresses ?b)))"
  proof (intro impI ballI)
    fix result
    assume e: "\<forall>w1 given d.
         \<forall>result \<in> set (successes (enroll_subsidy_users_in_courses env w1 given d)) \<union>
                    set (pending (enroll_subsidy_users_in_courses env w1 given d)).
           \<exists>info \<in> set given. info_email info = Some (r_email result)"
      and m: "result \<in> set (successes ?b) \<union> set (pending ?b)"
    from m have "\<exists>result0 \<in> set (successes results) \<union> set (pending results).
                   r_email result = r_email result0"
      by (auto simp: image_iff)
    then obtain result0 where r0: "result0 \<in> set (successes results) \<union> set (pending results)"
      and eq: "r_email result = r_email result0"
      by blast
    from e r0 obtain info where "info \<in> set ?given" "info_email info = Some (r_email result0)"
      unfolding res by blast
    then have "r_email result0 \<notin> set email_errors"
      using remove_bad_requests_clean [of email_errors user_id_errors resolved] by blast
    then show "r_email result \<notin> set (listed (invalid_email_addresses ?b))"
      using eq by simp
  qed
  show ?thesis
    using body once clean ids mails echo
    by (intro exI [of _ ?b] exI [of _ ?given] exI [of _ ?d] conjI)
qed

theorem invalid_identities_are_excluded_witness:
  "\<exists>resp w' b given d.
     enroll_learners_in_courses (example_env [] [] []) example_world
       (Valid (example_data [by_email ''a@x'' ''c1'', by_email ''bad'' ''c1'', by_user_id 9 ''c2''])) =
       (Inr resp, w') \<and>
     data resp = BulkResults b \<and>
     filter is_enrollment_call (new_calls example_world w') = [EnrollSubsidyUsers given d] \<and>
     (\<forall>info \<in> set given. info_email info \<noteq> Some ''bad'' \<and> info_user_id info \<noteq> Some 9) \<and>
     9 \<in> set (listed (invalid_user_ids b)) \<and>
     ''bad'' \<in> set (listed (invalid_email_addresses b)) \<and>
     status resp = 409 \<and>
     (\<forall>result \<in> set (successes b) \<union> set (pending b). r_email result \<noteq> ''bad'')"
proof -
  let ?env = "example_env [] [] []"
  let ?infos = "[by_email ''a@x'' ''c1'', by_email ''bad'' ''c1'', by_user_id 9 ''c2'']"
  let ?vd = "example_data ?infos"
  have i: "requested_infos ?vd = Some ?infos"
    by (simp add: requested_infos_def example_data_def)
  have ids: "\<forall>info \<in> set ?infos. info_user_id info \<noteq> None \<or> info_email info \<noteq> None"
    by (simp add: by_email_def by_user_id_def)
  have users: "\<forall>w1 given d.
       \<forall>result \<in> set (pending (enroll_subsidy_users_in_courses ?env w1 given d)) \<union>
                  set (successes (enroll_subsidy_users_in_courses ?env w1 given d)).
         r_created result \<longrightarrow> r_user result \<noteq> None"
    by (simp add: example_env_def example_result_def)
  from enroll_learners_in_courses_total [OF i ids users, of example_world]
  obtain resp w' where
    run: "enroll_learners_in_courses ?env example_world (Valid ?vd) = (Inr resp, w')"
    by blast
  have order: "\<forall>xs. set (iteration_order ?env xs) = set xs"
    by (simp add: example_env_def)
  have echo: "\<forall>w1 given d.
         \<forall>result \<in> set (successes (enroll_subsidy_users_in_courses ?env w1 given d)) \<union>
                    set (pending (enroll_subsidy_users_in_courses ?env w1 given d)).
           \<exists>info \<in> set given. info_email info = Some (r_email result)"
    by (auto simp: example_env_def example_result_def)
  have no_user: "by_user_id 9 ''c2'' \<in> set ?infos"
      "info_user_id (by_user_id 9 ''c2'') = Some 9 \<and> user_email_by_id ?env example_world 9 = None"
    by (simp_all add: by_user_id_def example_env_def)
  have bad_mail: "by_email ''bad'' ''c1'' \<in> set ?infos"
      "((info_user_id (by_email ''bad'' ''c1'') = None \<and>
         info_email (by_email ''bad'' ''c1'') = Some ''bad'') \<or>
        (\<exists>u. info_user_id (by_email ''bad'' ''c1'') = Some u \<and>
             user_email_by_id ?env example_world u = Some ''bad'')) \<and>
       \<not> validate_email_to_link ?env example_world ''bad''"
    by (simp_all add: by_email_def example_env_def)
  from invalid_identities_are_excluded [OF run i order]
  obtain b given d where
    body: "data resp = BulkResults b"
    and once: "filter is_enrollment_call (new_calls example_world w') = [EnrollSubsidyUsers given d]"
    and clean: "\<forall>info \<in> set given.
        (\<forall>email. info_email info = Some email \<longrightarrow>
                  email \<notin> set (listed (invalid_email_addresses b))) \<and>
        (\<forall>user_id. info_user_id info = Some user_id \<longrightarrow>
                    user_id \<notin> set (listed (invalid_user_ids b)))"
    and uids: "\<forall>info \<in> set ?infos. \<forall>u.
        info_user_id info = Some u \<and> user_email_by_id ?env example_world u = None \<longrightarrow>
        u \<in> set (listed (invalid_user_ids b)) \<and> status resp = 409"
    and mails: "\<forall>info \<in> set ?infos. \<forall>e.
        ((info_user_id info = None \<and> info_email info = Some e) \<or>
         (\<exists>u. info_user_id info = Some u \<and> user_email_by_id ?env example_world u = Some e)) \<and>
        \<not> validate_email_to_link ?env example_world e \<longrightarrow>
        e \<in> set (listed (invalid_email_addresses b)) \<and> status resp = 409"
    and quiet: "(\<forall>w1 given d.
         \<forall>result \<in> set (successes (enroll_subsidy_users_in_courses ?env w1 given d)) \<union>
                    set (pending (enroll_subsidy_users_in_courses ?env w1 given d)).
           \<exists>info \<in> set given. info_email info = Some (r_email result)) \<longrightarrow>
      (\<forall>result \<in> set (successes b) \<union> set (pending b).
         r_email result \<notin> set (listed (invalid_email_addresses b)))"
    by blast
  from uids no_user have u9: "9 \<in> set (listed (invalid_user_ids b))" "status resp = 409"
    by blast+
  from mails bad_mail have bad: "''bad'' \<in> set (listed (invalid_email_addresses b))"
    by blast
  from quiet echo have out: "\<forall>result \<in> set (successes b) \<union> set (pending b).
                               r_email result \<notin> set (listed (invalid_email_addresses b))"
    by blast
  have g: "\<forall>info \<in> set given. info_email info \<noteq> Some ''bad'' \<and> info_user_id info \<noteq> Some 9"
    using clean bad u9(1) by metis
  have o: "\<forall>result \<in> set (successes b) \<union> set (pending b). r_email result \<noteq> ''bad''"
    using out bad by metis
  show ?thesis
    using run body once g u9 bad o by blast
qed

section \<open>Linking after validation\<close>

text \<open>
  Claim C8. The claim has \<open>link_user\<close> called only for the emails that passed the
  validation. The linking loop of the view runs over the same set of emails as the validation
  loop, so a rejected email is linked all the same. For the single request with the email
  \<open>bad\<close>, which the validation of the example rejects: the first call made is
  \<open>link_user\<close> with \<open>bad\<close>, the collaborator is then given no request, and the response
  is the 409 that reports \<open>bad\<close> as an invalid email address.
\<close>

theorem link_user_called_for_rejected_email:
  "\<not> validate_email_to_link (example_env [] [] []) example_world ''bad'' \<and>
   (case enroll_learners_in_courses (example_env [] [] []) example_world
           (Valid (example_data [by_email ''bad'' ''c1''])) of
      (Inl e, w') \<Rightarrow> False
    | (Inr resp, w') \<Rightarrow>
        new_calls example_world w' = [LinkUser ''bad'', EnrollSubsidyUsers [] 100] \<and>
        resp = Response 409
                 (BulkResults \<lparr>successes = [], pending = [], failures = [],
                                invalid_user_ids = None,
                                invalid_email_addresses = Some [''bad'']\<rparr>))"
  by (simp add: bulk_eval new_calls_def example_world_def)

section \<open>Enrollment termination\<close>

text \<open>
  Claim C2. For an enterprise enrollment and a course overview, the rules of termination are
  tried in this order. When the learner has completed the course run, the outcome is
  \<open>COURSE_COMPLETED\<close> and nothing outside is touched. Otherwise, when the course run has
  an audit mode, the one call made is \<open>update_enrollment\<close> with the audit mode, and the
  outcome of a call that returns is \<open>MOVED_TO_AUDIT\<close>. Otherwise the one call made is
  \<open>update_enrollment\<close> with \<open>is_active=False\<close>, and the outcome of a call that returns is
  \<open>UNENROLLED\<close>.
\<close>

theorem terminate_enrollment_rules:
  "(has_user_completed_course_run env w e co \<longrightarrow>
      terminate_enrollment env w (Some e) (Some co) = (Inr COURSE_COMPLETED, w)) \<and>
   (\<not> has_user_completed_course_run env w e co \<and> mode_for_course env w (co_id co) AUDIT \<longrightarrow>
      snd (terminate_enrollment env w (Some e) (Some co)) =
        record_call (UpdateEnrollment (ece_username e) (co_id co) (Some AUDIT) None) w \<and>
      (update_enrollment env w (ece_username e) (co_id co) (Some AUDIT) None = None \<longrightarrow>
         fst (terminate_enrollment env w (Some e) (Some co)) = Inr MOVED_TO_AUDIT)) \<and>
   (\<not> has_user_completed_course_run env w e co \<and> \<not> mode_for_course env w (co_id co) AUDIT \<longrightarrow>
      snd (terminate_enrollment env w (Some e) (Some co)) =
        record_call (UpdateEnrollment (ece_username e) (co_id co) None (Some False)) w \<and>
      (update_enrollment env w (ece_username e) (co_id co) None (Some False) = None \<longrightarrow>
         fst (terminate_enrollment env w (Some e) (Some co)) = Inr UNENROLLED))"
  by (auto simp: terminate_enrollment_def Let_def split: option.splits)

theorem terminate_enrollment_rules_witness:
  "terminate_enrollment (example_env [''c1''] [''c1''] []) example_world
     (Some (example_enrollment 7 ''ent-a'' ''c1'')) (Some (example_overview ''c1'')) =
     (Inr COURSE_COMPLETED, example_world) \<and>
   terminate_enrollment (example_env [] [''c1''] []) example_world
     (Some (example_enrollment 7 ''ent-a'' ''c1'')) (Some (example_overview ''c1'')) =
     (Inr MOVED_TO_AUDIT,
      record_call (UpdateEnrollment ''ann'' ''c1'' (Some AUDIT) None) example_world) \<and>
   terminate_enrollment (example_env [] [] []) example_world
     (Some (example_enrollment 7 ''ent-a'' ''c1'')) (Some (example_overview ''c1'')) =
     (Inr UNENROLLED,
      record_call (UpdateEnrollment ''ann'' ''c1'' None (Some False)) example_world)"
proof -
  let ?e = "example_enrollment 7 ''ent-a'' ''c1''" and ?co = "example_overview ''c1''"
  have name: "ece_username ?e = ''ann''" and cid: "co_id ?co = ''c1''"
    by (simp_all add: example_enrollment_def example_overview_def)
  have compl: "has_user_completed_course_run (example_env [''c1''] [''c1''] []) example_world ?e ?co"
    by (simp add: has_user_completed_course_run_def example_env_def cid)
  have audit: "\<not> has_user_completed_course_run (example_env [] [''c1''] []) example_world ?e ?co"
      "mode_for_course (example_env [] [''c1''] []) example_world (co_id ?co) AUDIT"
      "update_enrollment (example_env [] [''c1''] []) example_world (ece_username ?e) (co_id ?co)
         (Some AUDIT) None = None"
    by (simp_all add: has_user_completed_course_run_def example_env_def cid)
  have none: "\<not> has_user_completed_course_run (example_env [] [] []) example_world ?e ?co"
      "\<not> mode_for_course (example_env [] [] []) example_world (co_id ?co) AUDIT"
      "update_enrollment (example_env [] [] []) example_world (ece_username ?e) (co_id ?co)
         None (Some False) = None"
    by (simp_all add: has_user_completed_course_run_def example_env_def cid)
  show ?thesis
    using terminate_enrollment_rules [of "example_env [''c1''] [''c1''] []" example_world ?e ?co]
          terminate_enrollment_rules [of "example_env [] [''c1''] []" example_world ?e ?co]
          terminate_enrollment_rules [of "example_env [] [] []" example_world ?e ?co]
          compl audit none
    by (simp add: cid example_enrollment_def prod_eq_iff)
qed

section \<open>Revocation follows termination\<close>




lemma revocations_write_log [simp]:
  "revocations w (write_log l outcome w') = revocations w w'"
  by (simp add: revocations_def new_calls_def)




section \<open>A revoked fulfillment is left alone\<close>

text \<open>
  Claim C4. A fulfillment that is already revoked is recognised before any termination.
  When the lookup of \<open>cancel_enrollment\<close> finds a fulfillment whose \<open>is_revoked\<close> flag is
  set, the answer is the 400 response \<open>Enrollment is already canceled.\<close> and the world is
  the one before the call: no call of \<open>update_enrollment\<close>, no change of a table. A pass of
  the expiration loop over a licensed enrollment whose flag is set only writes its log
  line: it makes no call, and the tables, with the flag of that row, stay as they were.
\<close>

theorem revoked_fulfillment_is_skipped:
  "(get_subsidy_fulfillment_queryset env w request uuid = Inr (kind, queryset) \<and>
    get_object_or_404 queryset uuid = Inr subsidy_fulfillment \<and>
    f_is_revoked subsidy_fulfillment \<longrightarrow>
      cancel_enrollment env w request uuid =
        (Inr (Response 400 (Detail ''Enrollment is already canceled.'')), w)) \<and>
   (f_enrollment l \<noteq> None \<and> f_is_revoked l \<longrightarrow>
      expire_licensed_enrollment env cutoff indexed_overviews modified_at l w =
        (Inr AlreadyRevoked, write_log l AlreadyRevoked w) \<and>
      calls (write_log l AlreadyRevoked w) = calls w \<and>
      licensed_table (write_log l AlreadyRevoked w) = licensed_table w \<and>
      credit_table (write_log l AlreadyRevoked w) = credit_table w)"
  by (auto simp: cancel_enrollment_def expire_licensed_enrollment_def write_log_def Let_def)

theorem revoked_fulfillment_is_skipped_witness:
  "cancel_enrollment (example_env [] [] []) example_world
     \<lparr>req_user_id = 8, req_is_staff = False\<rparr> ''k2'' =
     (Inr (Response 400 (Detail ''Enrollment is already canceled.'')), example_world) \<and>
   expire_licensed_enrollment (example_env [] [] []) None [] []
     (example_row ''f3'' True 7 ''ent-a'' ''c3'') example_world =
     (Inr AlreadyRevoked,
      write_log (example_row ''f3'' True 7 ''ent-a'' ''c3'') AlreadyRevoked example_world)"
proof -
  let ?env = "example_env [] [] []"
  let ?req = "\<lparr>req_user_id = 8, req_is_staff = False\<rparr>"
  let ?k2 = "example_row ''k2'' True 8 ''ent-b'' ''c2''"
  let ?f3 = "example_row ''f3'' True 7 ''ent-a'' ''c3''"
  have q: "get_subsidy_fulfillment_queryset ?env example_world ?req ''k2'' =
             Inr (LearnerCredit, [?k2])"
    by (simp add: get_subsidy_fulfillment_queryset_def example_env_def example_world_def
          example_row_def example_enrollment_def subsidy_fulfillment_filter_def
          enrollment_enterprise_def Let_def)
  have g: "get_object_or_404 [?k2] ''k2'' = Inr ?k2"
    by (simp add: get_object_or_404_def example_row_def)
  have r: "f_is_revoked ?k2" "f_is_revoked ?f3" "f_enrollment ?f3 \<noteq> None"
    by (simp_all add: example_row_def)
  show ?thesis
    using revoked_fulfillment_is_skipped
            [where env = ?env and w = example_world and request = ?req and uuid = "''k2''"
               and kind = LearnerCredit and queryset = "[?k2]" and subsidy_fulfillment = ?k2
               and l = ?f3 and cutoff = None and indexed_overviews = "[]" and modified_at = "[]"]
          q g r
    by simp
qed

section \<open>The cutoff of the bulk expiration\<close>

lemma map_of_desc_Max:
  fixes xs :: "('k \<times> 'd::linorder) list"
  assumes "sorted (rev (map snd xs))" and "k \<in> fst ` set xs"
  shows "map_of xs k = Some (Max (set (map snd (filter (\<lambda>p. fst p = k) xs))))"
  using assms
proof (induction xs)
  case Nil
  then show ?case by simp
next
  case (Cons p xs)
  obtain k' d' where p: "p = (k', d')" by (cases p)
  from Cons.prems(1) have srt: "sorted (rev (map snd xs))" and le: "\<forall>d \<in> set (map snd xs). d \<le> d'"
    by (auto simp: p sorted_append)
  show ?case
  proof (cases "k' = k")
    case True
    have "Max (insert d' (set (map snd (filter (\<lambda>p. fst p = k) xs)))) = d'"
      using le by (intro Max_eqI) auto
    then show ?thesis using True p by simp
  next
    case False
    then have "k \<in> fst ` set xs" using Cons.prems(2) p by auto
    then show ?thesis using Cons.IH [OF srt] False p by simp
  qed
qed

lemma modified_at_lookup:
  assumes m: "course_enrollment_modified_at_by_user_and_course_id env w les = Inr m"
    and ne: "history_dates_of_key (course_enrollment_history env w) les key \<noteq> []"
  shows "map_of m key =
           Some (Max (set (history_dates_of_key (course_enrollment_history env w) les key)))"
proof -
  let ?hist = "course_enrollment_history env w"
  let ?users = "set (map (\<lambda>l. ece_user_id (the (f_enrollment l))) les)"
  let ?courses = "set (map (\<lambda>l. ece_course_id (the (f_enrollment l))) les)"
  let ?F = "filter (\<lambda>(u, c, d). u \<in> ?users \<and> c \<in> ?courses) ?hist"
  let ?dt = "\<lambda>(u, c, d). d :: timestamp"
  let ?g = "\<lambda>(u, c, d). (modified_at_key u c, d :: timestamp)"
  have all: "\<not> (\<exists>l \<in> set les. f_enrollment l = None)"
    using m by (auto simp: course_enrollment_modified_at_by_user_and_course_id_def split: if_splits)
  have meq: "m = map ?g (rev (sort_key ?dt ?F))"
    using m all
    by (auto simp: course_enrollment_modified_at_by_user_and_course_id_def Let_def image_image)
  have sndg: "snd \<circ> ?g = ?dt" by (auto simp: fun_eq_iff)
  have "rev (map snd m) = map ?dt (sort_key ?dt ?F)"
    by (simp add: meq rev_map sndg)
  then have srt: "sorted (rev (map snd m))" by (simp only: sorted_sort_key)
  have dates: "set (map snd (filter (\<lambda>p. fst p = key) m)) =
               set (history_dates_of_key ?hist les key)"
    by (auto simp: meq history_dates_of_key_def image_iff split: prod.splits) force+
  have "set (map snd (filter (\<lambda>p. fst p = key) m)) \<noteq> {}" using ne dates by simp
  then obtain p where "p \<in> set m" "fst p = key" by auto
  then have "key \<in> fst ` set m" by force
  from map_of_desc_Max [OF srt this] dates show ?thesis by simp
qed

lemma pair_dates_subset_key_dates:
  assumes "l \<in> set les" and "f_enrollment l = Some e"
  shows "set (history_dates_of_pair history (ece_user_id e) (ece_course_id e)) \<subseteq>
         set (history_dates_of_key history les
                (modified_at_key (ece_user_id e) (ece_course_id e)))"
proof -
  have "ece_user_id e \<in> set (map (\<lambda>l. ece_user_id (the (f_enrollment l))) les)"
       "ece_course_id e \<in> set (map (\<lambda>l. ece_course_id (the (f_enrollment l))) les)"
    using assms by force+
  then show ?thesis
    by (auto simp: history_dates_of_pair_def history_dates_of_key_def image_iff) force
qed

lemma key_dates_subset_pair_dates:
  assumes "\<forall>(u, c, d) \<in> set history. modified_at_key u c = modified_at_key user_id course_id \<longrightarrow>
             u = user_id \<and> c = course_id"
  shows "set (history_dates_of_key history les (modified_at_key user_id course_id)) \<subseteq>
         set (history_dates_of_pair history user_id course_id)"
  using assms
  by (auto simp: history_dates_of_pair_def history_dates_of_key_def image_iff)

text \<open>
  The cutoff on one key. The modification times are computed once for the licensed
  enrollments of the batch. For a licensed enrollment of the batch whose user and course
  have a history entry:
  \<^item> the time found under its key is the latest date among the fetched history rows whose
    key \<open>f'{user_id}{course_id}'\<close> is that key;
  \<^item> when no history row of another user or course has the same key, that is the latest
    date of the history of its own user and course;
  \<^item> when it is not revoked and the latest date of its own history is at or after the
    cutoff, the pass skips it: it writes the log line and nothing else changes, no call is
    made, the pass is no failure, and the sweep goes on with the rest and the same flag.
\<close>

lemma cutoff_skips_recently_modified:
  assumes m: "course_enrollment_modified_at_by_user_and_course_id env w les = Inr m"
    and l: "l \<in> set les" "f_enrollment l = Some e"
    and h: "history_dates_of_pair (course_enrollment_history env w) (ece_user_id e)
              (ece_course_id e) \<noteq> []"
  shows "map_of m (modified_at_key (ece_user_id e) (ece_course_id e)) =
           Some (Max (set (history_dates_of_key (course_enrollment_history env w) les
                             (modified_at_key (ece_user_id e) (ece_course_id e))))) \<and>
         ((\<forall>(u, c, d) \<in> set (course_enrollment_history env w).
              modified_at_key u c = modified_at_key (ece_user_id e) (ece_course_id e) \<longrightarrow>
              u = ece_user_id e \<and> c = ece_course_id e) \<longrightarrow>
          map_of m (modified_at_key (ece_user_id e) (ece_course_id e)) =
            Some (Max (set (history_dates_of_pair (course_enrollment_history env w)
                              (ece_user_id e) (ece_course_id e))))) \<and>
         (\<not> f_is_revoked l \<and>
          cutoff \<le> Max (set (history_dates_of_pair (course_enrollment_history env w)
                               (ece_user_id e) (ece_course_id e))) \<longrightarrow>
          expire_licensed_enrollment env (Some cutoff) indexed_overviews m l w' =
            (Inr ModifiedPastCutoff, write_log l ModifiedPastCutoff w') \<and>
          calls (write_log l ModifiedPastCutoff w') = calls w' \<and>
          licensed_table (write_log l ModifiedPastCutoff w') = licensed_table w' \<and>
          credit_table (write_log l ModifiedPastCutoff w') = credit_table w' \<and>
          \<not> item_failed ModifiedPastCutoff \<and>
          expiration_loop env (Some cutoff) indexed_overviews m (l # rest) any_failures w' =
            expiration_loop env (Some cutoff) indexed_overviews m rest any_failures
              (write_log l ModifiedPastCutoff w'))"
proof -
  let ?hist = "course_enrollment_history env w"
  let ?key = "modified_at_key (ece_user_id e) (ece_course_id e)"
  let ?own = "set (history_dates_of_pair ?hist (ece_user_id e) (ece_course_id e))"
  let ?all = "set (history_dates_of_key ?hist les ?key)"
  have sub: "?own \<subseteq> ?all" by (rule pair_dates_subset_key_dates [OF l])
  have own_ne: "?own \<noteq> {}" using h by simp
  then have "history_dates_of_key ?hist les ?key \<noteq> []" using sub by auto
  from modified_at_lookup [OF m this]
  have look: "map_of m ?key = Some (Max ?all)" .
  have ge: "Max ?own \<le> Max ?all"
    by (rule Max_mono [OF sub own_ne]) simp
  have second: "(\<forall>(u, c, d) \<in> set ?hist. modified_at_key u c = ?key \<longrightarrow>
                    u = ece_user_id e \<and> c = ece_course_id e) \<longrightarrow>
                map_of m ?key = Some (Max ?own)"
  proof
    assume "\<forall>(u, c, d) \<in> set ?hist. modified_at_key u c = ?key \<longrightarrow>
              u = ece_user_id e \<and> c = ece_course_id e"
    from key_dates_subset_pair_dates [OF this, of les] sub have "?all = ?own" by auto
    then show "map_of m ?key = Some (Max ?own)" using look by simp
  qed
  have third: "\<not> f_is_revoked l \<and> cutoff \<le> Max ?own \<longrightarrow>
          expire_licensed_enrollment env (Some cutoff) indexed_overviews m l w' =
            (Inr ModifiedPastCutoff, write_log l ModifiedPastCutoff w')"
    using look ge l(2) by (auto simp: expire_licensed_enrollment_def Let_def)
  have log: "calls (write_log l ModifiedPastCutoff w') = calls w'"
      "licensed_table (write_log l ModifiedPastCutoff w') = licensed_table w'"
      "credit_table (write_log l ModifiedPastCutoff w') = credit_table w'"
    by (simp_all add: write_log_def)
  show ?thesis
    using look second third log by simp
qed

lemma cutoff_skips_recently_modified_example:
  "map_of [(''7c1'', 9), (''7c1'', 5), (''8c2'', 3)] (modified_at_key 7 ''c1'') =
     Some (9 :: timestamp) \<and>
   expire_licensed_enrollment (example_env [] [] []) (Some 7) []
     [(''7c1'', 9), (''7c1'', 5), (''8c2'', 3)] (example_row ''f1'' False 7 ''ent-a'' ''c1'')
     example_world =
     (Inr ModifiedPastCutoff,
      write_log (example_row ''f1'' False 7 ''ent-a'' ''c1'') ModifiedPastCutoff example_world)"
proof -
  let ?env = "example_env [] [] []"
  let ?l = "example_row ''f1'' False 7 ''ent-a'' ''c1''"
  let ?e = "example_enrollment 7 ''ent-a'' ''c1''"
  let ?les = "[?l, example_row ''f2'' False 8 ''ent-b'' ''c2'']"
  let ?m = "[(''7c1'', 9), (''7c1'', 5), (''8c2'', 3)] :: (string \<times> timestamp) list"
  have m: "course_enrollment_modified_at_by_user_and_course_id ?env example_world ?les = Inr ?m"
    by (simp add: course_enrollment_modified_at_by_user_and_course_id_def example_env_def
          example_row_def example_enrollment_def modified_at_key_def str_nat.simps
          digit_char_def Let_def)
  have l: "?l \<in> set ?les" "f_enrollment ?l = Some ?e" "\<not> f_is_revoked ?l"
    by (simp_all add: example_row_def)
  have ids: "ece_user_id ?e = 7" "ece_course_id ?e = ''c1''"
    by (simp_all add: example_enrollment_def)
  have hist: "course_enrollment_history ?env example_world =
                [(7, ''c1'', 5), (7, ''c1'', 9), (8, ''c2'', 3)]"
    by (simp add: example_env_def)
  have own: "history_dates_of_pair (course_enrollment_history ?env example_world)
               (ece_user_id ?e) (ece_course_id ?e) = [5, 9]"
    by (simp add: hist ids history_dates_of_pair_def)
  have h: "history_dates_of_pair (course_enrollment_history ?env example_world)
             (ece_user_id ?e) (ece_course_id ?e) \<noteq> []"
    by (simp add: own)
  have nocol: "\<forall>(u, c, d) \<in> set (course_enrollment_history ?env example_world).
                 modified_at_key u c = modified_at_key (ece_user_id ?e) (ece_course_id ?e) \<longrightarrow>
                 u = ece_user_id ?e \<and> c = ece_course_id ?e"
    by (simp add: hist ids modified_at_key_def str_nat.simps digit_char_def)
  have late: "7 \<le> Max (set (history_dates_of_pair (course_enrollment_history ?env example_world)
                               (ece_user_id ?e) (ece_course_id ?e)))"
    by (simp add: own)
  have key: "modified_at_key 7 ''c1'' = ''7c1''"
    by (simp add: modified_at_key_def str_nat.simps digit_char_def)
  show ?thesis
    using cutoff_skips_recently_modified
            [OF m l(1,2) h, where cutoff = 7 and indexed_overviews = "[]" and w' = example_world]
          nocol late l(3)
    by (simp add: own ids key)
qed

text \<open>
  Claim C5. The claim takes the latest modification time of a user and a course from the
  history of that pair. The times are kept under the key \<open>f'{user_id}{course_id}'\<close>, which
  user 3 in course \<open>1x\<close> and user 31 in course \<open>x\<close> share. With both licensed enrollments
  in one batch the time found for user 3 and course \<open>1x\<close> is 9, the date of the other pair,
  while the history of the pair itself ends at 5. Under the cutoff 7 the sweep skips the
  enrollment of user 3 on that account: it answers 200, makes no call and logs both
  enrollments as modified past the cutoff. Swept alone, under the same cutoff, the same
  enrollment is unenrolled and its license revoked.
\<close>

theorem modified_at_key_collision:
  "course_enrollment_modified_at_by_user_and_course_id collision_env collision_world
     collision_rows = Inr [(''31x'', 9), (''31x'', 5)] \<and>
   map_of [(''31x'', 9), (''31x'', 5)] (modified_at_key 3 ''1x'') = Some (9 :: timestamp) \<and>
   history_dates_of_pair (course_enrollment_history collision_env collision_world) 3 ''1x'' = [5] \<and>
   fst (expire_licensed_enrollment collision_env (Some 7) [] [(''31x'', 9), (''31x'', 5)]
          (example_row ''g1'' False 3 ''ent-a'' ''1x'') collision_world) = Inr ModifiedPastCutoff \<and>
   fst (bulk_licensed_enrollments_expiration collision_env collision_world [''Lg1'', ''Lg2'']
          (Some ''t7'')) = Inr (Response 200 NoBody) \<and>
   new_calls collision_world
     (snd (bulk_licensed_enrollments_expiration collision_env collision_world [''Lg1'', ''Lg2'']
             (Some ''t7''))) = [] \<and>
   expiration_log
     (snd (bulk_licensed_enrollments_expiration collision_env collision_world [''Lg1'', ''Lg2'']
             (Some ''t7''))) =
     [(example_row ''g1'' False 3 ''ent-a'' ''1x'', ModifiedPastCutoff),
      (example_row ''g2'' False 31 ''ent-a'' ''x'', ModifiedPastCutoff)] \<and>
   new_calls collision_world
     (snd (bulk_licensed_enrollments_expiration collision_env collision_world [''Lg1'']
             (Some ''t7''))) =
     [UpdateEnrollment ''bob'' ''1x'' None (Some False), Revoke Licensed ''g1'']"
  by (simp add: course_enrollment_modified_at_by_user_and_course_id_def collision_env_def
        collision_rows_def collision_world_def example_env_def example_row_def
        example_enrollment_def example_overview_def modified_at_key_def str_nat.simps
        digit_char_def history_dates_of_pair_def expire_licensed_enrollment_def
        bulk_licensed_enrollments_expiration_def attempt_expiration_def
        terminate_and_revoke_def terminate_enrollment_def has_user_completed_course_run_def
        dict_get_def write_log_def record_call_def new_calls_def mark_revoked_def
        Response_def Let_def)

section \<open>A failed update does not stop a revocation loop\<close>




lemma expiration_world_0 [simp]:
  "expiration_world env cutoff indexed_overviews modified_at items 0 w = w"
  by (simp add: expiration_world_def)




lemma is_failure_result_entry: "is_failure a \<longleftrightarrow> \<not> fst (result_entry a)"
  by (cases a) simp_all



lemma revocation_world_0 [simp]: "revocation_world env d overviews 0 w = w"
  by (simp add: revocation_world_def)









section \<open>Fulfillments of another customer\<close>

lemma get_subsidy_fulfillment_queryset_foreign:
  assumes "\<not> req_is_staff request"
    and "get_enterprise_customer_from_user_id env w (req_user_id request) = Some customer"
    and "\<forall>f \<in> set (credit_table w) \<union> set (licensed_table w).
           f_uuid f = uuid \<longrightarrow>
           enrollment_enterprise f \<noteq> Some customer \<and> f_entitlement_enterprise f \<noteq> Some customer"
  shows "get_subsidy_fulfillment_queryset env w request uuid = Inl (ValidationError not_found_message)"
proof -
  have "filter (subsidy_fulfillment_filter (Some customer))
          (filter (\<lambda>f. f_uuid f = uuid) (credit_table w)) = []"
    using assms(3) by (auto simp: filter_empty_conv subsidy_fulfillment_filter_def)
  moreover have "filter (subsidy_fulfillment_filter (Some customer))
          (filter (\<lambda>f. f_uuid f = uuid) (licensed_table w)) = []"
    using assms(3) by (auto simp: filter_empty_conv subsidy_fulfillment_filter_def)
  ultimately show ?thesis
    using assms(1,2) by (simp add: get_subsidy_fulfillment_queryset_def Let_def)
qed

lemma get_subsidy_fulfillment_queryset_missing:
  assumes "\<forall>f \<in> set (credit_table w) \<union> set (licensed_table w). f_uuid f \<noteq> uuid"
  shows "get_subsidy_fulfillment_queryset env w request uuid = Inl (ValidationError not_found_message)"
proof -
  have "filter (\<lambda>f. f_uuid f = uuid) (credit_table w) = []"
       "filter (\<lambda>f. f_uuid f = uuid) (licensed_table w) = []"
    using assms by (auto simp: filter_empty_conv)
  then show ?thesis
    by (simp add: get_subsidy_fulfillment_queryset_def Let_def)
qed

text \<open>
  Claim C9, as the code has it. The tenant filter accepts a fulfillment when the requester's
  customer is the customer of its enterprise course enrollment or the customer of its
  course entitlement. For a requester who is not staff and belongs to a customer, a uuid
  none of whose rows has that customer on either side is answered, by \<open>retrieve\<close> and by
  \<open>cancel_enrollment\<close>, with the 404 response that a uuid with no row at all gets, for
  any requester; the world is unchanged.
\<close>

theorem foreign_fulfillment_not_found:
  assumes "\<not> req_is_staff request"
    and "get_enterprise_customer_from_user_id env w (req_user_id request) = Some customer"
    and "\<forall>f \<in> set (credit_table w) \<union> set (licensed_table w).
           f_uuid f = uuid \<longrightarrow>
           enrollment_enterprise f \<noteq> Some customer \<and> f_entitlement_enterprise f \<noteq> Some customer"
    and "\<forall>f \<in> set (credit_table w0) \<union> set (licensed_table w0). f_uuid f \<noteq> uuid"
  shows "retrieve env w request uuid = Inr not_found_response \<and>
         retrieve env w0 anyone uuid = Inr not_found_response \<and>
         cancel_enrollment env w request uuid = (Inr not_found_response, w) \<and>
         cancel_enrollment env w0 anyone uuid = (Inr not_found_response, w0) \<and>
         status not_found_response = 404"
  using get_subsidy_fulfillment_queryset_foreign [OF assms(1,2,3)]
        get_subsidy_fulfillment_queryset_missing [OF assms(4), of env anyone]
  by (simp add: retrieve_def cancel_enrollment_def not_found_response_def Response_def)

theorem foreign_fulfillment_not_found_witness:
  "retrieve (example_env [] [] []) example_world \<lparr>req_user_id = 7, req_is_staff = False\<rparr> ''k2'' =
     Inr not_found_response \<and>
   retrieve (example_env [] [] []) example_world \<lparr>req_user_id = 7, req_is_staff = False\<rparr> ''zz'' =
     Inr not_found_response \<and>
   cancel_enrollment (example_env [] [] []) example_world
     \<lparr>req_user_id = 7, req_is_staff = False\<rparr> ''k2'' = (Inr not_found_response, example_world)"
proof -
  let ?env = "example_env [] [] []"
  let ?req = "\<lparr>req_user_id = 7, req_is_staff = False\<rparr>"
  have a: "\<not> req_is_staff ?req" by simp
  have b: "get_enterprise_customer_from_user_id ?env example_world (req_user_id ?req) = Some ''ent-a''"
    by (simp add: example_env_def)
  have c: "\<forall>f \<in> set (credit_table example_world) \<union> set (licensed_table example_world).
             f_uuid f = ''k2'' \<longrightarrow>
             enrollment_enterprise f \<noteq> Some ''ent-a'' \<and> f_entitlement_enterprise f \<noteq> Some ''ent-a''"
    by (simp add: example_world_def example_row_def example_enrollment_def enrollment_enterprise_def)
  let ?w0 = "example_world\<lparr>credit_table := [], licensed_table := []\<rparr>"
  have d: "\<forall>f \<in> set (credit_table ?w0) \<union> set (licensed_table ?w0). f_uuid f \<noteq> ''k2''"
    by simp
  have e: "\<forall>f \<in> set (credit_table example_world) \<union> set (licensed_table example_world).
             f_uuid f = ''zz'' \<longrightarrow>
             enrollment_enterprise f \<noteq> Some ''ent-a'' \<and> f_entitlement_enterprise f \<noteq> Some ''ent-a''"
    by (simp add: example_world_def example_row_def)
  have f: "\<forall>f \<in> set (credit_table ?w0) \<union> set (licensed_table ?w0). f_uuid f \<noteq> ''zz''"
    by simp
  show ?thesis
    using foreign_fulfillment_not_found [OF a b c d] foreign_fulfillment_not_found [OF a b e f]
    by simp
qed

text \<open>
  The claim as the specification words it speaks of the enterprise course enrollment only.
  A learner credit row whose enrollment belongs to customer \<open>ent-b\<close> and whose entitlement
  belongs to customer \<open>ent-a\<close> is served to a requester of \<open>ent-a\<close> who is not staff, while
  the same request against empty tables is answered with the 404 response.
\<close>

theorem foreign_enrollment_counterexample:
  "\<not> req_is_staff \<lparr>req_user_id = 7, req_is_staff = False\<rparr> \<and>
   get_enterprise_customer_from_user_id (example_env [] [] []) entitled_world 7 = Some ''ent-a'' \<and>
   enrollment_enterprise entitled_row = Some ''ent-b'' \<and>
   retrieve (example_env [] [] []) entitled_world \<lparr>req_user_id = 7, req_is_staff = False\<rparr> ''k9'' =
     Inr (Response 200 (Serialized LearnerCreditEnterpriseCourseEnrollmentReadOnlySerializer
                          entitled_row)) \<and>
   retrieve (example_env [] [] []) (entitled_world\<lparr>credit_table := []\<rparr>)
     \<lparr>req_user_id = 7, req_is_staff = False\<rparr> ''k9'' = Inr not_found_response"
  by (simp add: retrieve_def get_subsidy_fulfillment_queryset_def get_object_or_404_def
        get_subsidy_fulfillment_serializer_class_def subsidy_fulfillment_filter_def
        enrollment_enterprise_def entitled_world_def entitled_row_def example_env_def
        example_enrollment_def not_found_response_def Let_def)

end
